theory Spec2Isabelle
  imports Main
begin

section \<open>JavaScript values\<close>

text \<open>
  The store, the server replies and the payloads of actions hold untyped JavaScript
  values. Numbers are the integers (identifiers, prices in euros, minutes); an object
  is the list of its own properties, the first binding of a name being the one in force.
  Strings are ASCII.
\<close>

datatype jsval =
    JUndefined
  | JNull
  | JBool bool
  | JNum int
  | JStr string
  | JArr "jsval list"
  | JObj "(string \<times> jsval) list"

text \<open>What a handler can throw, or a promise reject with.\<close>

datatype exn =
    TypeError
  | RangeError
  | Rejected jsval

fun nullish :: "jsval \<Rightarrow> bool" where
  "nullish JUndefined = True"
| "nullish JNull = True"
| "nullish _ = False"

text \<open>
  \<^verbatim>\<open>v.k\<close>: a TypeError on \<^verbatim>\<open>undefined\<close> and \<^verbatim>\<open>null\<close>, the property of an object,
  \<^verbatim>\<open>undefined\<close> where there is none. The names the sources read (\<^verbatim>\<open>id\<close>,
  \<^verbatim>\<open>available\<close>, \<^verbatim>\<open>detail\<close>, ...) are no property of a number, a boolean, a string or
  an array.
\<close>

fun get_prop :: "jsval \<Rightarrow> string \<Rightarrow> exn + jsval" where
  "get_prop JUndefined k = Inl TypeError"
| "get_prop JNull k = Inl TypeError"
| "get_prop (JObj kvs) k = Inr (case map_of kvs k of Some v \<Rightarrow> v | None \<Rightarrow> JUndefined)"
| "get_prop _ k = Inr JUndefined"

text \<open>\<^verbatim>\<open>v?.k\<close>: \<^verbatim>\<open>undefined\<close> instead of the TypeError.\<close>

fun opt_chain :: "jsval \<Rightarrow> string \<Rightarrow> jsval" where
  "opt_chain v k = (case get_prop v k of Inl e \<Rightarrow> JUndefined | Inr w \<Rightarrow> w)"

fun truthy :: "jsval \<Rightarrow> bool" where
  "truthy JUndefined = False"
| "truthy JNull = False"
| "truthy (JBool b) = b"
| "truthy (JNum n) = (n \<noteq> 0)"
| "truthy (JStr s) = (s \<noteq> [])"
| "truthy _ = True"

text \<open>\<^verbatim>\<open>a || b\<close>\<close>

definition js_or :: "jsval \<Rightarrow> jsval \<Rightarrow> jsval" where
  "js_or a b = (if truthy a then a else b)"

text \<open>
  \<^verbatim>\<open>a === b\<close>. Primitive values are compared by type and value. Arrays and objects are
  compared by reference in JavaScript; the store holds values, not references, so two
  of them are taken as two different objects.
\<close>

fun strict_eq :: "jsval \<Rightarrow> jsval \<Rightarrow> bool" where
  "strict_eq (JArr xs) b = False"
| "strict_eq (JObj kvs) b = False"
| "strict_eq a b = (a = b)"

text \<open>\<^verbatim>\<open>xs.map(f)\<close> with a callback that can throw: the first exception ends the loop.\<close>

fun map_exn :: "('a \<Rightarrow> exn + 'b) \<Rightarrow> 'a list \<Rightarrow> exn + 'b list" where
  "map_exn f [] = Inr []"
| "map_exn f (x # xs) =
     (case f x of
        Inl e \<Rightarrow> Inl e
      | Inr y \<Rightarrow> (case map_exn f xs of Inl e \<Rightarrow> Inl e | Inr ys \<Rightarrow> Inr (y # ys)))"

section \<open>The application state store (context/AppContext.jsx)\<close>

record state =
  user :: jsval
  appointments :: jsval
  loading :: jsval
  error :: jsval
  currentBooking :: jsval
  availableSlots :: jsval
  voiceSupported :: jsval

definition initialState :: state where
  "initialState =
     \<lparr>user = JNull, appointments = JArr [], loading = JBool False, error = JNull,
      currentBooking = JNull, availableSlots = JArr [], voiceSupported = JBool False\<rparr>"

text \<open>An action: \<^verbatim>\<open>{ type, payload }\<close>; \<^verbatim>\<open>atype\<close> is the source's \<^verbatim>\<open>type\<close>.\<close>

record action =
  atype :: jsval
  payload :: jsval

definition ActionTypes :: "string list" where
  "ActionTypes =
     [''SET_LOADING'', ''SET_ERROR'', ''SET_USER'', ''SET_APPOINTMENTS'', ''ADD_APPOINTMENT'',
      ''UPDATE_APPOINTMENT'', ''SET_CURRENT_BOOKING'', ''SET_AVAILABLE_SLOTS'',
      ''SET_VOICE_SUPPORTED'', ''CLEAR_ERROR'']"

text \<open>
  \<^verbatim>\<open>[...state.appointments, action.payload]\<close>: an array is spread into its elements, a
  string into its characters, anything else is not iterable.
\<close>

fun spread_append :: "jsval \<Rightarrow> jsval \<Rightarrow> exn + jsval" where
  "spread_append (JArr xs) p = Inr (JArr (xs @ [p]))"
| "spread_append (JStr s) p = Inr (JArr (map (\<lambda>c. JStr [c]) s @ [p]))"
| "spread_append _ p = Inl TypeError"

text \<open>\<^verbatim>\<open>apt => apt.id === action.payload.id ? action.payload : apt\<close>\<close>

definition replace_by_id :: "jsval \<Rightarrow> jsval \<Rightarrow> exn + jsval" where
  "replace_by_id p apt =
     (case get_prop apt ''id'' of
        Inl e \<Rightarrow> Inl e
      | Inr i \<Rightarrow>
          (case get_prop p ''id'' of
             Inl e \<Rightarrow> Inl e
           | Inr j \<Rightarrow> Inr (if strict_eq i j then p else apt)))"

text \<open>\<^verbatim>\<open>state.appointments.map(...)\<close>: only an array has a \<^verbatim>\<open>map\<close> method here.\<close>

fun map_appointments :: "jsval \<Rightarrow> jsval \<Rightarrow> exn + jsval" where
  "map_appointments (JArr xs) p =
     (case map_exn (replace_by_id p) xs of Inl e \<Rightarrow> Inl e | Inr ys \<Rightarrow> Inr (JArr ys))"
| "map_appointments _ p = Inl TypeError"

definition appReducer :: "state \<Rightarrow> action \<Rightarrow> exn + state" where
  "appReducer s a =
     (if atype a = JStr ''SET_LOADING'' then Inr (s\<lparr>loading := payload a\<rparr>)
      else if atype a = JStr ''SET_ERROR'' then Inr (s\<lparr>error := payload a, loading := JBool False\<rparr>)
      else if atype a = JStr ''CLEAR_ERROR'' then Inr (s\<lparr>error := JNull\<rparr>)
      else if atype a = JStr ''SET_USER'' then Inr (s\<lparr>user := payload a\<rparr>)
      else if atype a = JStr ''SET_APPOINTMENTS'' then Inr (s\<lparr>appointments := payload a\<rparr>)
      else if atype a = JStr ''ADD_APPOINTMENT'' then
        (case spread_append (appointments s) (payload a) of
           Inl e \<Rightarrow> Inl e
         | Inr v \<Rightarrow> Inr (s\<lparr>appointments := v\<rparr>))
      else if atype a = JStr ''UPDATE_APPOINTMENT'' then
        (case map_appointments (appointments s) (payload a) of
           Inl e \<Rightarrow> Inl e
         | Inr v \<Rightarrow> Inr (s\<lparr>appointments := v\<rparr>))
      else if atype a = JStr ''SET_CURRENT_BOOKING'' then Inr (s\<lparr>currentBooking := payload a\<rparr>)
      else if atype a = JStr ''SET_AVAILABLE_SLOTS'' then Inr (s\<lparr>availableSlots := payload a\<rparr>)
      else if atype a = JStr ''SET_VOICE_SUPPORTED'' then Inr (s\<lparr>voiceSupported := payload a\<rparr>)
      else Inr s)"

text \<open>
  \<^verbatim>\<open>dispatch\<close> of \<^verbatim>\<open>useReducer\<close>: the store becomes what the reducer returns. A reducer that
  throws fails the render and the store keeps its value.
\<close>

definition dispatch :: "action \<Rightarrow> state \<Rightarrow> state" where
  "dispatch a s = (case appReducer s a of Inl e \<Rightarrow> s | Inr s' \<Rightarrow> s')"

text \<open>The action creators of \<^verbatim>\<open>AppProvider\<close> that the booking form calls.\<close>

definition setLoading :: "jsval \<Rightarrow> state \<Rightarrow> state" where
  "setLoading v = dispatch \<lparr>atype = JStr ''SET_LOADING'', payload = v\<rparr>"

definition setError :: "jsval \<Rightarrow> state \<Rightarrow> state" where
  "setError v = dispatch \<lparr>atype = JStr ''SET_ERROR'', payload = v\<rparr>"

definition clearError :: "state \<Rightarrow> state" where
  "clearError = dispatch \<lparr>atype = JStr ''CLEAR_ERROR'', payload = JUndefined\<rparr>"

definition addAppointment :: "jsval \<Rightarrow> state \<Rightarrow> state" where
  "addAppointment v = dispatch \<lparr>atype = JStr ''ADD_APPOINTMENT'', payload = v\<rparr>"

definition updateAppointment :: "jsval \<Rightarrow> state \<Rightarrow> state" where
  "updateAppointment v = dispatch \<lparr>atype = JStr ''UPDATE_APPOINTMENT'', payload = v\<rparr>"

section \<open>The platform and the network\<close>

text \<open>
  The date functions of the JavaScript engine and of date-fns are parameters of the
  model. An instant is its number of milliseconds since the epoch.
  \<^item> \<open>newDate v\<close> is \<^verbatim>\<open>new Date(v)\<close>, \<open>None\<close> for an Invalid Date;
  \<^item> \<open>toISOString t\<close> is \<^verbatim>\<open>d.toISOString()\<close> of a valid date (of an invalid one it
    throws a RangeError);
  \<^item> \<open>format_HHmm t\<close> and \<open>format_ymd t\<close> are date-fns' \<^verbatim>\<open>format(d, 'HH:mm')\<close> and
    \<^verbatim>\<open>format(d, 'yyyy-MM-dd')\<close> of a valid date (of an invalid one they throw a RangeError);
  \<^item> \<open>addDays t n\<close> is date-fns' \<^verbatim>\<open>addDays(d, n)\<close>.
\<close>

record platform =
  newDate :: "jsval \<Rightarrow> int option"
  toISOString :: "int \<Rightarrow> string"
  format_HHmm :: "int \<Rightarrow> string"
  format_ymd :: "int \<Rightarrow> string"
  addDays :: "int \<Rightarrow> int \<Rightarrow> int"

text \<open>
  The requests that leave the client (services/api.js and Stripe's \<^verbatim>\<open>confirmPayment\<close>),
  with their arguments.
\<close>

datatype request =
    GetAvailability jsval
  | CreateAppointment jsval
  | CreateIntent jsval jsval jsval
  | ConfirmPayment jsval jsval

text \<open>How the promise of a request settles. \<open>Resolve\<close> carries the axios response.\<close>

datatype reply = Resolve jsval | Reject jsval

text \<open>
  What the response interceptor of services/api.js can change in the browser: the item
  \<^verbatim>\<open>authToken\<close> of the local storage (\<^verbatim>\<open>null\<close> when there is none) and, when it assigns
  \<^verbatim>\<open>window.location.href\<close>, the address the browser is sent to.
\<close>

record browser =
  authToken :: jsval
  navigation :: "string option"

text \<open>
  The rejection handler of the response interceptor, through which every rejection of an
  axios request passes: on the status 401 it removes the token and sends the browser to
  \<^verbatim>\<open>/login\<close>, and it rejects with the same error. Reading \<^verbatim>\<open>error.response\<close> of
  \<^verbatim>\<open>undefined\<close> or \<^verbatim>\<open>null\<close> throws, and the promise then rejects with that TypeError.
\<close>

definition response_interceptor :: "jsval \<Rightarrow> browser \<Rightarrow> exn \<times> browser" where
  "response_interceptor e b =
     (case get_prop e ''response'' of
        Inl x \<Rightarrow> (x, b)
      | Inr resp \<Rightarrow>
          if strict_eq (opt_chain resp ''status'') (JNum 401)
          then (Rejected e, b\<lparr>authToken := JNull, navigation := Some ''/login''\<rparr>)
          else (Rejected e, b))"

section \<open>The booking form (components/Appointment/BookingForm.jsx)\<close>

record service =
  svalue :: string
  label :: string
  price :: int
  duration :: int

definition serviceTypes :: "service list" where
  "serviceTypes =
     [\<lparr>svalue = ''haircut'', label = ''Taglio di Capelli'', price = 25, duration = 30\<rparr>,
      \<lparr>svalue = ''beard_trim'', label = ''Sistemazione Barba'', price = 15, duration = 20\<rparr>,
      \<lparr>svalue = ''shave'', label = ''Rasatura'', price = 20, duration = 25\<rparr>,
      \<lparr>svalue = ''wash_and_cut'', label = ''Lavaggio e Taglio'', price = 35, duration = 45\<rparr>,
      \<lparr>svalue = ''styling'', label = ''Styling'', price = 30, duration = 40\<rparr>]"

text \<open>
  The effect that keeps \<^verbatim>\<open>selectedService\<close> in step with the watched \<^verbatim>\<open>service_type\<close>:
  \<^verbatim>\<open>serviceTypes.find(s => s.value === watchedService)\<close>, \<open>None\<close> for \<^verbatim>\<open>undefined\<close>.
\<close>

definition selectedService_of :: "string \<Rightarrow> service option" where
  "selectedService_of watchedService = find (\<lambda>s. svalue s = watchedService) serviceTypes"

text \<open>
  What the handlers of the form change: the store, the component's own
  \<^verbatim>\<open>availableSlots\<close> (\<open>slots\<close>), the requests sent so far, the values passed to
  the \<^verbatim>\<open>onSuccess\<close> prop (when the parent gave one), and the browser.
\<close>

record world =
  store :: state
  slots :: jsval
  requests :: "request list"
  succeeded :: "jsval list"
  browser :: browser

definition send :: "request \<Rightarrow> world \<Rightarrow> world" where
  "send q w = w\<lparr>requests := requests w @ [q]\<rparr>"

definition on_store :: "(state \<Rightarrow> state) \<Rightarrow> world \<Rightarrow> world" where
  "on_store f w = w\<lparr>store := f (store w)\<rparr>"

text \<open>An axios request is rejected with \<open>e\<close>: what is thrown at the \<^verbatim>\<open>await\<close>.\<close>

definition rejected :: "jsval \<Rightarrow> world \<Rightarrow> exn \<times> world" where
  "rejected e w =
     (case response_interceptor e (browser w) of (x, b) \<Rightarrow> (x, w\<lparr>browser := b\<rparr>))"

subsection \<open>fetchAvailableSlots\<close>

text \<open>The \<^verbatim>\<open>try\<close> block; an exception comes with the world as it was when thrown.\<close>

definition fetch_try :: "platform \<Rightarrow> string \<Rightarrow> service \<Rightarrow> reply \<Rightarrow> world \<Rightarrow> (exn \<times> world) + world" where
  "fetch_try P watchedDate svc r w =
     (let w1 = on_store (setLoading (JBool True)) w;
          startDate = newDate P (JStr (watchedDate @ ''T09:00:00''));
          endDate = newDate P (JStr (watchedDate @ ''T18:00:00''))
      in case startDate of
           None \<Rightarrow> Inl (RangeError, w1)
         | Some t1 \<Rightarrow>
        (case endDate of
           None \<Rightarrow> Inl (RangeError, w1)
         | Some t2 \<Rightarrow>
        (let w2 = send (GetAvailability (JObj
                    [(''start_date'', JStr (toISOString P t1)),
                     (''end_date'', JStr (toISOString P t2)),
                     (''duration_minutes'', JNum (duration svc))])) w1
         in case r of
              Reject e \<Rightarrow> Inl (rejected e w2)
            | Resolve response \<Rightarrow>
           (case get_prop response ''data'' of
              Inl e \<Rightarrow> Inl (e, w2)
            | Inr d \<Rightarrow>
           (case get_prop d ''available_slots'' of
              Inl e \<Rightarrow> Inl (e, w2)
            | Inr v \<Rightarrow> Inr (w2\<lparr>slots := js_or v (JArr [])\<rparr>))))))"

definition fetchAvailableSlots :: "platform \<Rightarrow> string \<Rightarrow> service option \<Rightarrow> reply \<Rightarrow> world \<Rightarrow> world" where
  "fetchAvailableSlots P watchedDate selectedService r w =
     (case selectedService of
        None \<Rightarrow> w
      | Some svc \<Rightarrow>
          if watchedDate = [] then w
          else
            (let w' = (case fetch_try P watchedDate svc r w of
                         Inr w2 \<Rightarrow> w2
                       | Inl (e, w2) \<Rightarrow>
                           on_store (setError (JStr ''Errore nel caricamento degli orari disponibili'')) w2)
             in on_store (setLoading (JBool False)) w'))"

subsection \<open>timeSlots\<close>

record time_slot =
  slot_value :: string
  slot_label :: string
  datetime :: jsval

text \<open>\<^verbatim>\<open>xs.filter(f)\<close> with a callback that can throw.\<close>

fun filter_exn :: "('a \<Rightarrow> exn + bool) \<Rightarrow> 'a list \<Rightarrow> exn + 'a list" where
  "filter_exn f [] = Inr []"
| "filter_exn f (x # xs) =
     (case f x of
        Inl e \<Rightarrow> Inl e
      | Inr b \<Rightarrow>
          (case filter_exn f xs of
             Inl e \<Rightarrow> Inl e
           | Inr ys \<Rightarrow> Inr (if b then x # ys else ys)))"

text \<open>\<^verbatim>\<open>slot => slot.available\<close>\<close>

definition slot_available :: "jsval \<Rightarrow> exn + bool" where
  "slot_available slot =
     (case get_prop slot ''available'' of Inl e \<Rightarrow> Inl e | Inr a \<Rightarrow> Inr (truthy a))"

text \<open>The callback of \<^verbatim>\<open>map\<close>: \<^verbatim>\<open>format\<close> throws a RangeError on an Invalid Date.\<close>

definition to_time_slot :: "platform \<Rightarrow> jsval \<Rightarrow> exn + time_slot" where
  "to_time_slot P slot =
     (case get_prop slot ''start_time'' of
        Inl e \<Rightarrow> Inl e
      | Inr st \<Rightarrow>
          (case newDate P st of
             None \<Rightarrow> Inl RangeError
           | Some t \<Rightarrow>
               Inr \<lparr>slot_value = format_HHmm P t, slot_label = format_HHmm P t, datetime = st\<rparr>))"

text \<open>Only an array has \<^verbatim>\<open>filter\<close>.\<close>

fun timeSlots :: "platform \<Rightarrow> jsval \<Rightarrow> exn + time_slot list" where
  "timeSlots P (JArr xs) =
     (case filter_exn slot_available xs of
        Inl e \<Rightarrow> Inl e
      | Inr ys \<Rightarrow> map_exn (to_time_slot P) ys)"
| "timeSlots P _ = Inl TypeError"


subsection \<open>The registered validation rules\<close>

text \<open>
  The patterns of the form are regular expressions tested against the whole value
  (\<^verbatim>\<open>^...$\<close>). A regular expression is matched by its derivatives.
\<close>

datatype rexp =
    Zero
  | One
  | Atom "char \<Rightarrow> bool"
  | Alt rexp rexp
  | Seq rexp rexp
  | Star rexp

fun nullable :: "rexp \<Rightarrow> bool" where
  "nullable Zero = False"
| "nullable One = True"
| "nullable (Atom p) = False"
| "nullable (Alt r s) = (nullable r \<or> nullable s)"
| "nullable (Seq r s) = (nullable r \<and> nullable s)"
| "nullable (Star r) = True"

fun deriv :: "char \<Rightarrow> rexp \<Rightarrow> rexp" where
  "deriv c Zero = Zero"
| "deriv c One = Zero"
| "deriv c (Atom p) = (if p c then One else Zero)"
| "deriv c (Alt r s) = Alt (deriv c r) (deriv c s)"
| "deriv c (Seq r s) =
     (if nullable r then Alt (Seq (deriv c r) s) (deriv c s) else Seq (deriv c r) s)"
| "deriv c (Star r) = Seq (deriv c r) (Star r)"

fun matches :: "rexp \<Rightarrow> string \<Rightarrow> bool" where
  "matches r [] = nullable r"
| "matches r (c # cs) = matches (deriv c r) cs"

text \<open>\<^verbatim>\<open>r?\<close>, \<^verbatim>\<open>r+\<close> and \<^verbatim>\<open>r{n,}\<close>\<close>

definition Opt :: "rexp \<Rightarrow> rexp" where
  "Opt r = Alt One r"

definition Plus :: "rexp \<Rightarrow> rexp" where
  "Plus r = Seq r (Star r)"

fun at_least :: "nat \<Rightarrow> rexp \<Rightarrow> rexp" where
  "at_least 0 r = Star r"
| "at_least (Suc n) r = Seq r (at_least n r)"

definition is_digit :: "char \<Rightarrow> bool" where
  "is_digit c = (c \<in> set ''0123456789'')"

text \<open>\<^verbatim>\<open>[A-Z]\<close> under the flag \<^verbatim>\<open>i\<close>\<close>

definition is_letter :: "char \<Rightarrow> bool" where
  "is_letter c = (c \<in> set ''ABCDEFGHIJKLMNOPQRSTUVWXYZabcdefghijklmnopqrstuvwxyz'')"

text \<open>\<^verbatim>\<open>\s\<close>: space, tab, line feed, vertical tab, form feed, carriage return.\<close>

definition is_space :: "char \<Rightarrow> bool" where
  "is_space c = (c \<in> set [CHR 0x20, CHR 0x09, CHR 0x0A, CHR 0x0B, CHR 0x0C, CHR 0x0D])"

text \<open>\<^verbatim>\<open>/^[\+]?[0-9\s\-\(\)]{10,}$/\<close>\<close>

definition phone_pattern :: rexp where
  "phone_pattern =
     Seq (Opt (Atom (\<lambda>c. c = CHR ''+'')))
         (at_least 10 (Atom (\<lambda>c. is_digit c \<or> is_space c \<or> c \<in> set ''-()'')))"

text \<open>\<^verbatim>\<open>/^[A-Z0-9._%+-]+@[A-Z0-9.-]+\.[A-Z]{2,}$/i\<close>\<close>

definition email_pattern :: rexp where
  "email_pattern =
     Seq (Plus (Atom (\<lambda>c. is_letter c \<or> is_digit c \<or> c \<in> set ''._%+-'')))
    (Seq (Atom (\<lambda>c. c = CHR ''@''))
    (Seq (Plus (Atom (\<lambda>c. is_letter c \<or> is_digit c \<or> c \<in> set ''.-'')))
    (Seq (Atom (\<lambda>c. c = CHR ''.''))
         (at_least 2 (Atom is_letter)))))"

text \<open>The values of the form that \<^verbatim>\<open>handleSubmit\<close> of react-hook-form passes on.\<close>

record form_data =
  customer_name :: string
  customer_phone :: string
  customer_email :: string
  service_type :: string
  appointment_date :: string
  appointment_time :: string
  "notes" :: string
  requires_prepayment :: bool

text \<open>The options of \<^verbatim>\<open>register\<close>, and the rule a value can break.\<close>

record rules =
  required :: bool
  minLength :: "nat option"
  pattern :: "rexp option"

datatype rule = Required | MinLength | Pattern

text \<open>
  react-hook-form checks a field in this order and reports the first rule broken:
  \<^verbatim>\<open>required\<close> fails on the empty value; \<^verbatim>\<open>minLength\<close> and \<^verbatim>\<open>pattern\<close> are checked on a
  value that is not empty.
\<close>

definition check_field :: "rules \<Rightarrow> string \<Rightarrow> rule option" where
  "check_field rs v =
     (if v = [] then (if required rs then Some Required else None)
      else if (case minLength rs of None \<Rightarrow> False | Some n \<Rightarrow> length v < n) then Some MinLength
      else if (case pattern rs of None \<Rightarrow> False | Some r \<Rightarrow> \<not> matches r v) then Some Pattern
      else None)"

text \<open>The fields of the form that are registered with rules, in the order of the JSX.\<close>

definition registered :: "(string \<times> rules \<times> (form_data \<Rightarrow> string)) list" where
  "registered =
     [(''customer_name'', \<lparr>required = True, minLength = Some 2, pattern = None\<rparr>, customer_name),
      (''customer_phone'', \<lparr>required = True, minLength = None, pattern = Some phone_pattern\<rparr>, customer_phone),
      (''customer_email'', \<lparr>required = False, minLength = None, pattern = Some email_pattern\<rparr>, customer_email),
      (''service_type'', \<lparr>required = True, minLength = None, pattern = None\<rparr>, service_type),
      (''appointment_date'', \<lparr>required = True, minLength = None, pattern = None\<rparr>, appointment_date),
      (''appointment_time'', \<lparr>required = True, minLength = None, pattern = None\<rparr>, appointment_time)]"

text \<open>The \<^verbatim>\<open>errors\<close> of the form: the fields with a broken rule.\<close>

definition validate :: "form_data \<Rightarrow> (string \<times> rule) list" where
  "validate d =
     List.map_filter (\<lambda>(name, rs, field). map_option (Pair name) (check_field rs (field d))) registered"

subsection \<open>onSubmit\<close>

text \<open>
  \<^verbatim>\<open>error.response\<close> of what was caught: a TypeError and a RangeError are Error objects
  with no \<^verbatim>\<open>response\<close>; a rejection carries the value the promise rejected with.
\<close>

fun exn_response :: "exn \<Rightarrow> exn + jsval" where
  "exn_response (Rejected v) = get_prop v ''response''"
| "exn_response _ = Inr JUndefined"

text \<open>The \<^verbatim>\<open>try\<close> block.\<close>

definition submit_try :: "platform \<Rightarrow> service option \<Rightarrow> form_data \<Rightarrow> reply \<Rightarrow> world \<Rightarrow> (exn \<times> world) + world" where
  "submit_try P selectedService d r w =
     (let w1 = on_store clearError (on_store (setLoading (JBool True)) w)
      in case newDate P (JStr (appointment_date d @ ''T'' @ appointment_time d)) of
           None \<Rightarrow> Inl (RangeError, w1)
         | Some t \<Rightarrow>
        (case selectedService of
           None \<Rightarrow> Inl (TypeError, w1)
         | Some svc \<Rightarrow>
        (let appointmentData = JObj
               [(''customer_name'', JStr (customer_name d)),
                (''customer_phone'', JStr (customer_phone d)),
                (''customer_email'', js_or (JStr (customer_email d)) JNull),
                (''appointment_datetime'', JStr (toISOString P t)),
                (''service_type'', JStr (service_type d)),
                (''service_duration'', JNum (duration svc)),
                (''service_price'', JNum (price svc)),
                (''notes'', js_or (JStr (notes d)) JNull),
                (''requires_prepayment'', js_or (JBool (requires_prepayment d)) (JBool False))];
             w2 = send (CreateAppointment appointmentData) w1
         in case r of
              Reject e \<Rightarrow> Inl (rejected e w2)
            | Resolve response \<Rightarrow>
           (case get_prop response ''data'' of
              Inl e \<Rightarrow> Inl (e, w2)
            | Inr a \<Rightarrow>
                (let w3 = on_store (addAppointment a) w2
                 in Inr (w3\<lparr>succeeded := succeeded w3 @ [a]\<rparr>))))))"

text \<open>
  The \<^verbatim>\<open>catch\<close> block: \<^verbatim>\<open>error.response?.data?.detail || '...'\<close>, then \<^verbatim>\<open>setError\<close>. Reading
  \<^verbatim>\<open>response\<close> of a rejection with \<^verbatim>\<open>undefined\<close> or \<^verbatim>\<open>null\<close> throws in its turn.
\<close>

definition submit_catch :: "exn \<Rightarrow> world \<Rightarrow> (exn \<times> world) + world" where
  "submit_catch e w =
     (case exn_response e of
        Inl e' \<Rightarrow> Inl (e', w)
      | Inr resp \<Rightarrow>
          (let errorMessage =
                 js_or (opt_chain (opt_chain resp ''data'') ''detail'')
                       (JStr ''Errore nella creazione dell'appuntamento'')
           in Inr (on_store (setError errorMessage) w)))"

text \<open>
  \<^verbatim>\<open>onSubmit\<close>: \<^verbatim>\<open>try\<close>, \<^verbatim>\<open>catch\<close>, and \<^verbatim>\<open>finally\<close> on every path. The first component is
  the exception that leaves the handler, if any.
\<close>

definition onSubmit :: "platform \<Rightarrow> service option \<Rightarrow> form_data \<Rightarrow> reply \<Rightarrow> world \<Rightarrow> exn option \<times> world" where
  "onSubmit P selectedService d r w =
     (case submit_try P selectedService d r w of
        Inr w' \<Rightarrow> (None, on_store (setLoading (JBool False)) w')
      | Inl (e, w') \<Rightarrow>
          (case submit_catch e w' of
             Inr w'' \<Rightarrow> (None, on_store (setLoading (JBool False)) w'')
           | Inl (e', w'') \<Rightarrow> (Some e', on_store (setLoading (JBool False)) w'')))"

text \<open>
  \<^verbatim>\<open>handleSubmit(onSubmit)\<close> of react-hook-form: the callback runs only when no
  registered rule is broken; otherwise the errors are reported and nothing else happens.
\<close>

datatype submit_result = Invalid "(string \<times> rule) list" | Completed | Threw exn

definition rhf_handleSubmit :: "platform \<Rightarrow> service option \<Rightarrow> form_data \<Rightarrow> reply \<Rightarrow> world \<Rightarrow> submit_result \<times> world" where
  "rhf_handleSubmit P selectedService d r w =
     (if validate d = [] then
        (case onSubmit P selectedService d r w of
           (None, w') \<Rightarrow> (Completed, w')
         | (Some e, w') \<Rightarrow> (Threw e, w'))
      else (Invalid (validate d), w))"

text \<open>
  The handler of the form's submit event, \<^verbatim>\<open>handleSubmit(onSubmit)\<close>, at the time of the
  event: the effect has set \<^verbatim>\<open>selectedService\<close> to the catalog entry of the form's
  \<^verbatim>\<open>service_type\<close>, and \<open>r\<close> is how the server answers the creation request, if one
  is sent. The handler does not read the \<^verbatim>\<open>min\<close> attribute of the date input; a browser
  checks that attribute on its own, against the value it had at the last render.
\<close>

definition submit :: "platform \<Rightarrow> form_data \<Rightarrow> reply \<Rightarrow> world \<Rightarrow> submit_result \<times> world" where
  "submit P d r w = rhf_handleSubmit P (selectedService_of (service_type d)) d r w"



section \<open>The checkout form (components/Payment/CheckoutForm.jsx)\<close>

text \<open>
  The message of the form: none (\<^verbatim>\<open>null\<close>), the success text, the generic failure text
  of the \<^verbatim>\<open>catch\<close> block, or the processor's own \<^verbatim>\<open>error.message\<close>.
\<close>

datatype message =
    No_message
  | Success_message
  | Generic_failure_message
  | Processor_message jsval

text \<open>The calls of the props \<^verbatim>\<open>onSuccess\<close> and \<^verbatim>\<open>onError\<close> (when the parent gave them).\<close>

datatype callback =
    OnSuccess jsval
  | OnError jsval
  | OnError_caught exn

text \<open>
  The state of the component, with the requests it has sent and the callbacks it has
  called so far, and the browser.
\<close>

record checkout =
  isProcessing :: bool
  message :: message
  email :: jsval
  sent :: "request list"
  called :: "callback list"
  tab :: browser

text \<open>
  How \<^verbatim>\<open>stripe.confirmPayment\<close> with \<^verbatim>\<open>redirect: 'if_required'\<close> ends: its promise
  settles, or the browser leaves the page for the processor's redirect and the handler
  never resumes.
\<close>

datatype confirm_reply = Settled reply | Redirected

text \<open>
  The branches after \<^verbatim>\<open>confirmPayment\<close> has resolved with \<open>res\<close>. Here and below,
  \<open>opt_chain\<close> also stands for the plain \<^verbatim>\<open>v.k\<close> where \<^verbatim>\<open>v\<close> is known to be neither
  \<^verbatim>\<open>undefined\<close> nor \<^verbatim>\<open>null\<close> (a truthy value, or one that was read from before).
\<close>

definition after_confirm :: "jsval \<Rightarrow> jsval \<Rightarrow> checkout \<Rightarrow> (exn \<times> checkout) + checkout" where
  "after_confirm appointment res c =
     (case get_prop res ''error'' of
        Inl e \<Rightarrow> Inl (e, c)
      | Inr err \<Rightarrow>
     (case get_prop res ''paymentIntent'' of
        Inl e \<Rightarrow> Inl (e, c)
      | Inr paymentIntent \<Rightarrow>
          if truthy err then
            Inr (c\<lparr>message := Processor_message (opt_chain err ''message''),
                   called := called c @ [OnError err]\<rparr>)
          else if truthy paymentIntent \<and> strict_eq (opt_chain paymentIntent ''status'') (JStr ''succeeded'') then
            Inr (c\<lparr>message := Success_message,
                   called := called c @
                     [OnSuccess (JObj [(''paymentIntent'', paymentIntent), (''appointment'', appointment)])]\<rparr>)
          else Inr c))"

text \<open>
  The \<^verbatim>\<open>confirmParams\<close> of \<^verbatim>\<open>confirmPayment\<close>; \<open>origin\<close> is \<^verbatim>\<open>window.location.origin\<close>
  and \<open>em\<close> the \<^verbatim>\<open>email\<close> of the component.
\<close>

definition confirmParams :: "string \<Rightarrow> jsval \<Rightarrow> jsval \<Rightarrow> jsval" where
  "confirmParams origin appointment em =
     JObj [(''return_url'', JStr (origin @ ''/payment-success'')),
           (''payment_method_data'', JObj
              [(''billing_details'', JObj
                 [(''name'', opt_chain appointment ''customer_name''),
                  (''email'', em),
                  (''phone'', opt_chain appointment ''customer_phone'')])])]"

text \<open>
  The \<^verbatim>\<open>try\<close> block. The authorization request goes through axios, so its rejection
  passes the response interceptor; \<^verbatim>\<open>confirmPayment\<close> is Stripe's own call. The third
  result is the handler suspended for good at \<^verbatim>\<open>confirmPayment\<close>.
\<close>

datatype 'a tried = Done 'a | Thrown exn 'a | Suspended 'a

definition checkout_try :: "string \<Rightarrow> jsval \<Rightarrow> reply \<Rightarrow> confirm_reply \<Rightarrow> checkout \<Rightarrow> checkout tried" where
  "checkout_try origin appointment ir cr c =
     (case get_prop appointment ''service_price'' of
        Inl e \<Rightarrow> Thrown e c
      | Inr amount \<Rightarrow>
     (case get_prop appointment ''id'' of
        Inl e \<Rightarrow> Thrown e c
      | Inr appointmentId \<Rightarrow>
     (let c1 = c\<lparr>sent := sent c @ [CreateIntent amount (JStr ''eur'') appointmentId]\<rparr>
      in case ir of
           Reject e \<Rightarrow>
             (case response_interceptor e (tab c1) of (x, b) \<Rightarrow> Thrown x (c1\<lparr>tab := b\<rparr>))
         | Resolve paymentIntentResponse \<Rightarrow>
        (case get_prop paymentIntentResponse ''data'' of
           Inl e \<Rightarrow> Thrown e c1
         | Inr d \<Rightarrow>
        (case get_prop d ''client_secret'' of
           Inl e \<Rightarrow> Thrown e c1
         | Inr client_secret \<Rightarrow>
        (let c2 = c1\<lparr>sent := sent c1 @
                     [ConfirmPayment client_secret (confirmParams origin appointment (email c1))]\<rparr>
         in case cr of
              Redirected \<Rightarrow> Suspended c2
            | Settled (Reject e) \<Rightarrow> Thrown (Rejected e) c2
            | Settled (Resolve res) \<Rightarrow>
                (case after_confirm appointment res c2 of
                   Inl (e, c3) \<Rightarrow> Thrown e c3
                 | Inr c3 \<Rightarrow> Done c3)))))))"

text \<open>
  \<^verbatim>\<open>handleSubmit\<close> of the checkout form. \<open>stripe\<close> and \<open>elements\<close> tell whether the
  two hooks have loaded; \<open>ir\<close> and \<open>cr\<close> are how the backend and the processor
  answer the two requests, if they are sent.
\<close>

definition checkout_handleSubmit ::
  "bool \<Rightarrow> bool \<Rightarrow> string \<Rightarrow> jsval \<Rightarrow> reply \<Rightarrow> confirm_reply \<Rightarrow> checkout \<Rightarrow> checkout" where
  "checkout_handleSubmit stripe elements origin appointment ir cr c =
     (if \<not> stripe \<or> \<not> elements then c
      else
        (case checkout_try origin appointment ir cr (c\<lparr>isProcessing := True, message := No_message\<rparr>) of
           Done c' \<Rightarrow> c'\<lparr>isProcessing := False\<rparr>
         | Thrown e c' \<Rightarrow>
             c'\<lparr>message := Generic_failure_message, called := called c' @ [OnError_caught e],
                isProcessing := False\<rparr>
         | Suspended c' \<Rightarrow> c'))"

text \<open>Pressing the button again and again, each time with the answers of that time.\<close>

fun checkout_run ::
  "string \<Rightarrow> jsval \<Rightarrow> (reply \<times> confirm_reply) list \<Rightarrow> checkout \<Rightarrow> checkout" where
  "checkout_run origin appointment [] c = c"
| "checkout_run origin appointment ((ir, cr) # rs) c =
     checkout_run origin appointment rs (checkout_handleSubmit True True origin appointment ir cr c)"

text \<open>The handles (client secrets) for which a confirm request was sent, in order.\<close>

fun confirmed_handles :: "request list \<Rightarrow> jsval list" where
  "confirmed_handles [] = []"
| "confirmed_handles (ConfirmPayment h ps # qs) = h # confirmed_handles qs"
| "confirmed_handles (q # qs) = confirmed_handles qs"

text \<open>The handle that an answer of the backend to the authorization request carries.\<close>

definition issued_handle :: "reply \<Rightarrow> jsval option" where
  "issued_handle ir =
     (case ir of
        Reject e \<Rightarrow> None
      | Resolve resp \<Rightarrow>
          (case get_prop resp ''data'' of
             Inl e \<Rightarrow> None
           | Inr d \<Rightarrow> (case get_prop d ''client_secret'' of Inl e \<Rightarrow> None | Inr h \<Rightarrow> Some h)))"

section \<open>Notions used in the statements\<close>

text \<open>
  Two values carry the same \<^verbatim>\<open>id\<close>: the test \<^verbatim>\<open>apt.id === action.payload.id\<close> of two
  values that are neither \<^verbatim>\<open>undefined\<close> nor \<^verbatim>\<open>null\<close>.
\<close>

definition same_id :: "jsval \<Rightarrow> jsval \<Rightarrow> bool" where
  "same_id apt p = strict_eq (opt_chain apt ''id'') (opt_chain p ''id'')"

text \<open>The start times that are valid dates are in ascending order.\<close>

definition ascending :: "platform \<Rightarrow> jsval list \<Rightarrow> bool" where
  "ascending P vs = sorted (List.map_filter (newDate P) vs)"


text \<open>The requests of one press of the pay button, for the handle the backend issues.\<close>

definition payment_requests :: "string \<Rightarrow> jsval \<Rightarrow> jsval \<Rightarrow> jsval option \<Rightarrow> request list" where
  "payment_requests origin appointment em issued =
     CreateIntent (opt_chain appointment ''service_price'') (JStr ''eur'') (opt_chain appointment ''id'') #
     (case issued of None \<Rightarrow> [] | Some h \<Rightarrow> [ConfirmPayment h (confirmParams origin appointment em)])"

text \<open>The local validations of a draft, as the specification lists them.\<close>

definition locally_valid :: "form_data \<Rightarrow> bool" where
  "locally_valid d =
     (customer_name d \<noteq> [] \<and> 2 \<le> length (customer_name d) \<and>
      matches phone_pattern (customer_phone d) \<and>
      (customer_email d = [] \<or> matches email_pattern (customer_email d)) \<and>
      service_type d \<in> svalue ` set serviceTypes \<and>
      appointment_date d \<noteq> [] \<and> appointment_time d \<noteq> [])"

section \<open>Sample data\<close>

text \<open>
  A platform for the examples: the dates below as a JavaScript engine in the UTC time
  zone reads and prints them, and no other.
\<close>

definition sample_dates :: "(string \<times> int) list" where
  "sample_dates =
     [(''2026-11-03T09:00:00'', 1793696400000),
      (''2026-11-03T18:00:00'', 1793728800000),
      (''2026-11-03T10:00'', 1793700000000),
      (''2026-11-03T09:00:00.000Z'', 1793696400000),
      (''2026-11-03T10:00:00.000Z'', 1793700000000)]"

definition sample_instants :: "(int \<times> string \<times> string \<times> string) list" where
  "sample_instants =
     [(1793660400000, ''2026-11-02T23:00:00.000Z'', ''23:00'', ''2026-11-02''),
      (1793696400000, ''2026-11-03T09:00:00.000Z'', ''09:00'', ''2026-11-03''),
      (1793700000000, ''2026-11-03T10:00:00.000Z'', ''10:00'', ''2026-11-03''),
      (1793703600000, ''2026-11-03T11:00:00.000Z'', ''11:00'', ''2026-11-03''),
      (1793728800000, ''2026-11-03T18:00:00.000Z'', ''18:00'', ''2026-11-03''),
      (1793746800000, ''2026-11-03T23:00:00.000Z'', ''23:00'', ''2026-11-03'')]"

definition utc_sample :: platform where
  "utc_sample =
     \<lparr>newDate = (\<lambda>v. case v of JStr s \<Rightarrow> map_of sample_dates s | JNum n \<Rightarrow> Some n | _ \<Rightarrow> None),
      toISOString = (\<lambda>t. case map_of sample_instants t of Some (s1, s2, s3) \<Rightarrow> s1 | None \<Rightarrow> []),
      format_HHmm = (\<lambda>t. case map_of sample_instants t of Some (s1, s2, s3) \<Rightarrow> s2 | None \<Rightarrow> []),
      format_ymd = (\<lambda>t. case map_of sample_instants t of Some (s1, s2, s3) \<Rightarrow> s3 | None \<Rightarrow> []),
      addDays = (\<lambda>t n. t + n * 86400000)\<rparr>"

definition initial_world :: world where
  "initial_world =
     \<lparr>store = initialState, slots = JArr [], requests = [], succeeded = [],
      browser = \<lparr>authToken = JStr ''token-1'', navigation = None\<rparr>\<rparr>"

text \<open>The draft of scenario A, for the third of November 2026 at ten.\<close>

definition mario_draft :: form_data where
  "mario_draft =
     \<lparr>customer_name = ''Mario Rossi'', customer_phone = ''+39 123 456 7890'',
      customer_email = [], service_type = ''haircut'', appointment_date = ''2026-11-03'',
      appointment_time = ''10:00'', notes = [], requires_prepayment = False\<rparr>"

definition haircut :: service where
  "haircut = \<lparr>svalue = ''haircut'', label = ''Taglio di Capelli'', price = 25, duration = 30\<rparr>"

text \<open>The appointment as the server returns it, and the response that carries it.\<close>

definition mario_appointment :: jsval where
  "mario_appointment =
     JObj [(''id'', JNum 7), (''customer_name'', JStr ''Mario Rossi''),
           (''customer_phone'', JStr ''+39 123 456 7890''), (''service_price'', JNum 25),
           (''status'', JStr ''pending'')]"

definition created_response :: jsval where
  "created_response = JObj [(''status'', JNum 201), (''data'', mario_appointment)]"

text \<open>A failed creation: the server answers 409 with a \<^verbatim>\<open>detail\<close>.\<close>

definition conflict_error :: jsval where
  "conflict_error =
     JObj [(''message'', JStr ''Request failed with status code 409''),
           (''response'', JObj [(''status'', JNum 409),
                                (''data'', JObj [(''detail'', JStr ''Time slot not available'')])])]"




text \<open>Two free slots that the scheduling source lists with the later one first.\<close>

definition unordered_slots_response :: jsval where
  "unordered_slots_response =
     JObj [(''data'', JObj [(''available_slots'', JArr
       [JObj [(''start_time'', JStr ''2026-11-03T10:00:00.000Z''), (''available'', JBool True)],
        JObj [(''start_time'', JStr ''2026-11-03T09:00:00.000Z''), (''available'', JBool True)]])])]"

text \<open>A response whose body has no \<^verbatim>\<open>available_slots\<close>.\<close>

definition no_slots_field_response :: jsval where
  "no_slots_field_response = JObj [(''data'', JObj [(''message'', JStr ''closed'')])]"

text \<open>
  A backend that answers every authorization request for the appointment with the
  same payment intent, and a processor that reports success.
\<close>

definition intent_response :: jsval where
  "intent_response = JObj [(''data'', JObj [(''client_secret'', JStr ''pi_7_secret_x'')])]"

definition confirm_succeeded :: jsval where
  "confirm_succeeded =
     JObj [(''paymentIntent'', JObj [(''id'', JStr ''pi_7''), (''status'', JStr ''succeeded'')])]"

text \<open>The processor's answer to a confirm request for an intent that has succeeded already.\<close>

definition confirm_already_succeeded :: jsval where
  "confirm_already_succeeded =
     JObj [(''error'', JObj [(''message'', JStr ''This PaymentIntent has already succeeded.'')])]"

definition new_checkout :: checkout where
  "new_checkout =
     \<lparr>isProcessing = False, message = No_message, email = JStr [], sent = [], called = [],
      tab = \<lparr>authToken = JStr ''token-1'', navigation = None\<rparr>\<rparr>"

text \<open>The same draft with the telephone number of scenario E, and with no time chosen.\<close>

definition abc_draft :: form_data where
  "abc_draft = mario_draft\<lparr>customer_phone := ''abc''\<rparr>"


text \<open>A store with two appointments, and the first of them after its confirmation.\<close>

definition other_appointment :: jsval where
  "other_appointment = JObj [(''id'', JNum 8), (''customer_name'', JStr ''Anna Bianchi''), (''status'', JStr ''pending'')]"

definition mario_confirmed :: jsval where
  "mario_confirmed =
     JObj [(''id'', JNum 7), (''customer_name'', JStr ''Mario Rossi''),
           (''customer_phone'', JStr ''+39 123 456 7890''), (''service_price'', JNum 25),
           (''status'', JStr ''confirmed'')]"

definition two_appointments :: state where
  "two_appointments = initialState\<lparr>appointments := JArr [mario_appointment, other_appointment]\<rparr>"

text \<open>Slots of the third of November as the scheduling source lists them.\<close>

definition taken_slot :: jsval where
  "taken_slot = JObj [(''start_time'', JStr ''2026-11-03T10:00:00.000Z''), (''available'', JBool False)]"

definition free_slot_9 :: jsval where
  "free_slot_9 = JObj [(''start_time'', JStr ''2026-11-03T09:00:00.000Z''), (''available'', JBool True)]"

definition free_slot_10 :: jsval where
  "free_slot_10 = JObj [(''start_time'', JStr ''2026-11-03T10:00:00.000Z''), (''available'', JBool True)]"

text \<open>A response of the scheduling source that lists them in ascending order.\<close>

definition ordered_slots_response :: jsval where
  "ordered_slots_response =
     JObj [(''data'', JObj [(''available_slots'', JArr [free_slot_9, taken_slot, free_slot_10])])]"

text \<open>A second payment intent, and the checkout form after a first, successful payment.\<close>

definition intent_response_2 :: jsval where
  "intent_response_2 = JObj [(''data'', JObj [(''client_secret'', JStr ''pi_8_secret_y'')])]"

definition shop_origin :: string where
  "shop_origin = ''https://shop.example''"

definition first_payment :: checkout where
  "first_payment =
     checkout_handleSubmit True True shop_origin mario_appointment
       (Resolve intent_response) (Settled (Resolve confirm_succeeded)) new_checkout"

section \<open>The transitions of the store\<close>

lemma replace_by_id_total:
  "\<not> nullish p \<Longrightarrow> \<not> nullish apt \<Longrightarrow> replace_by_id p apt = Inr (if same_id apt p then p else apt)"
  by (cases p; cases apt) (simp_all add: replace_by_id_def same_id_def)

lemma map_exn_total:
  "(\<And>x. x \<in> set xs \<Longrightarrow> f x = Inr (g x)) \<Longrightarrow> map_exn f xs = Inr (map g xs)"
  by (induction xs) simp_all

lemma map_if_noop: "(\<And>x. x \<in> set xs \<Longrightarrow> \<not> Q x) \<Longrightarrow> map (\<lambda>x. if Q x then p else x) xs = xs"
  by (induction xs) simp_all

text \<open>
  Claim C9. An action whose type is none of the ten named kinds is a no-op: the reducer
  returns the very state it was given, so each of its seven fields is as before.
\<close>

theorem appReducer_unknown_noop:
  "atype a \<notin> JStr ` set ActionTypes \<Longrightarrow> appReducer s a = Inr s"
  by (auto simp: appReducer_def ActionTypes_def)

theorem appReducer_unknown_noop_witness:
  "atype \<lparr>atype = JStr ''RESET'', payload = JNull\<rparr> \<notin> JStr ` set ActionTypes \<and>
   appReducer two_appointments \<lparr>atype = JStr ''RESET'', payload = JNull\<rparr> = Inr two_appointments"
proof -
  have h: "atype \<lparr>atype = JStr ''RESET'', payload = JNull\<rparr> \<notin> JStr ` set ActionTypes"
    by (simp add: ActionTypes_def)
  show ?thesis using h appReducer_unknown_noop [OF h, of two_appointments] by simp
qed

text \<open>
  Claim C4. On a list of appointments (values other than \<^verbatim>\<open>undefined\<close> and \<^verbatim>\<open>null\<close>),
  \<^verbatim>\<open>UPDATE_APPOINTMENT\<close> keeps the length and the order of the list, puts the payload at
  the positions whose entry has the payload's \<^verbatim>\<open>id\<close> and leaves every other entry as it
  was; no other field of the state changes. When no entry has that \<^verbatim>\<open>id\<close>, the list and
  the whole state are unchanged.
\<close>

theorem update_appointment_by_id:
  assumes "appointments s = JArr xs" "\<not> nullish p" "\<forall>x\<in>set xs. \<not> nullish x"
  shows "\<exists>ys. appReducer s \<lparr>atype = JStr ''UPDATE_APPOINTMENT'', payload = p\<rparr> = Inr (s\<lparr>appointments := JArr ys\<rparr>)
     \<and> length ys = length xs
     \<and> (\<forall>i<length xs. ys ! i = (if same_id (xs ! i) p then p else xs ! i))
     \<and> ((\<forall>x\<in>set xs. \<not> same_id x p) \<longrightarrow> ys = xs \<and> s\<lparr>appointments := JArr ys\<rparr> = s)"
proof -
  let ?ys = "map (\<lambda>apt. if same_id apt p then p else apt) xs"
  have m: "map_exn (replace_by_id p) xs = Inr ?ys"
    using assms(2,3) by (intro map_exn_total) (simp add: replace_by_id_total)
  have r: "appReducer s \<lparr>atype = JStr ''UPDATE_APPOINTMENT'', payload = p\<rparr> = Inr (s\<lparr>appointments := JArr ?ys\<rparr>)"
    using assms(1) m by (simp add: appReducer_def)
  have "s\<lparr>appointments := appointments s\<rparr> = s" by simp
  then have u: "s\<lparr>appointments := JArr xs\<rparr> = s" using assms(1) by simp
  have n: "(\<forall>x\<in>set xs. \<not> same_id x p) \<longrightarrow> ?ys = xs"
    by (auto simp: map_if_noop)
  show ?thesis using r n u by (intro exI [of _ ?ys]) auto
qed

theorem update_appointment_by_id_witness:
  "appointments two_appointments = JArr [mario_appointment, other_appointment] \<and>
   \<not> nullish mario_confirmed \<and>
   appReducer two_appointments \<lparr>atype = JStr ''UPDATE_APPOINTMENT'', payload = mario_confirmed\<rparr> =
     Inr (two_appointments\<lparr>appointments := JArr [mario_confirmed, other_appointment]\<rparr>) \<and>
   appReducer two_appointments \<lparr>atype = JStr ''UPDATE_APPOINTMENT'', payload = JObj [(''id'', JNum 9)]\<rparr> =
     Inr two_appointments"
proof -
  have h1: "appointments two_appointments = JArr [mario_appointment, other_appointment]"
    by (simp add: two_appointments_def)
  have h2: "\<not> nullish mario_confirmed" "\<not> nullish (JObj [(''id'', JNum 9)])"
    by (simp_all add: mario_confirmed_def)
  have h3: "\<forall>x\<in>set [mario_appointment, other_appointment]. \<not> nullish x"
    by (simp add: mario_appointment_def other_appointment_def)
  have i: "same_id mario_appointment mario_confirmed" "\<not> same_id other_appointment mario_confirmed"
    "\<not> same_id mario_appointment (JObj [(''id'', JNum 9)])" "\<not> same_id other_appointment (JObj [(''id'', JNum 9)])"
    by (simp_all add: same_id_def mario_appointment_def mario_confirmed_def other_appointment_def)
  from update_appointment_by_id [OF h1 h2(1) h3] obtain ys where
    r: "appReducer two_appointments \<lparr>atype = JStr ''UPDATE_APPOINTMENT'', payload = mario_confirmed\<rparr> =
          Inr (two_appointments\<lparr>appointments := JArr ys\<rparr>)"
    and l: "length ys = length [mario_appointment, other_appointment]"
    and y: "\<forall>i<length [mario_appointment, other_appointment].
              ys ! i = (if same_id ([mario_appointment, other_appointment] ! i) mario_confirmed
              then mario_confirmed else [mario_appointment, other_appointment] ! i)"
    by blast
  from y [rule_format, of 0] y [rule_format, of 1] i
  have "ys ! 0 = mario_confirmed" "ys ! 1 = other_appointment"
    by simp_all
  with l have "ys = [mario_confirmed, other_appointment]"
    by (cases ys; cases "tl ys") auto
  with r have a: "appReducer two_appointments \<lparr>atype = JStr ''UPDATE_APPOINTMENT'', payload = mario_confirmed\<rparr> =
     Inr (two_appointments\<lparr>appointments := JArr [mario_confirmed, other_appointment]\<rparr>)"
    by simp
  have n: "\<forall>x\<in>set [mario_appointment, other_appointment]. \<not> same_id x (JObj [(''id'', JNum 9)])"
    using i by simp
  from update_appointment_by_id [OF h1 h2(2) h3] n
  have b: "appReducer two_appointments \<lparr>atype = JStr ''UPDATE_APPOINTMENT'', payload = JObj [(''id'', JNum 9)]\<rparr> =
     Inr two_appointments"
    by metis
  show ?thesis using h1 h2 a b by simp
qed

section \<open>The available slots\<close>

lemma dispatch_simple [simp]:
  "loading (setLoading v s) = v"
  "error (setLoading v s) = error s"
  "appointments (setLoading v s) = appointments s"
  "error (setError v s) = v"
  "loading (setError v s) = JBool False"
  "appointments (setError v s) = appointments s"
  "error (clearError s) = JNull"
  "loading (clearError s) = loading s"
  "appointments (clearError s) = appointments s"
  by (simp_all add: setLoading_def setError_def clearError_def dispatch_def appReducer_def)

lemma world_frame [simp]:
  "requests (on_store f w) = requests w"
  "slots (on_store f w) = slots w"
  "succeeded (on_store f w) = succeeded w"
  "store (on_store f w) = f (store w)"
  "browser (on_store f w) = browser w"
  "requests (send q w) = requests w @ [q]"
  "store (send q w) = store w"
  "slots (send q w) = slots w"
  "succeeded (send q w) = succeeded w"
  "browser (send q w) = browser w"
  by (simp_all add: on_store_def send_def)

lemma rejected_frame [simp]:
  "requests (snd (rejected e w)) = requests w"
  "store (snd (rejected e w)) = store w"
  "slots (snd (rejected e w)) = slots w"
  "succeeded (snd (rejected e w)) = succeeded w"
  by (simp_all add: rejected_def split: prod.splits)

lemma rejected_eqD:
  "rejected e w = (x, w') \<Longrightarrow>
     requests w' = requests w \<and> store w' = store w \<and> slots w' = slots w \<and>
     succeeded w' = succeeded w \<and> exn_response x = Inr (opt_chain e ''response'')"
  by (cases e) (auto simp: rejected_def response_interceptor_def split: if_splits)



lemma filter_exn_Inr:
  "filter_exn f xs = Inr ys \<Longrightarrow> ys = filter (\<lambda>x. f x = Inr True) xs"
  by (induction xs arbitrary: ys) (auto split: sum.splits if_splits)

lemma filter_exn_none:
  "(\<And>x. x \<in> set xs \<Longrightarrow> f x = Inr False) \<Longrightarrow> filter_exn f xs = Inr []"
  by (induction xs) simp_all

lemma map_exn_Inr:
  "map_exn f ys = Inr ts \<Longrightarrow> list_all2 (\<lambda>y t. f y = Inr t) ys ts"
  by (induction ys arbitrary: ts) (auto split: sum.splits)

lemma list_all2_right_witness:
  "list_all2 R ys ts \<Longrightarrow> t \<in> set ts \<Longrightarrow> \<exists>y\<in>set ys. R y t"
  by (induction rule: list_all2_induct) auto

lemma to_time_slot_datetime:
  "to_time_slot P slot = Inr t \<Longrightarrow> get_prop slot ''start_time'' = Inr (datetime t)"
  by (auto simp: to_time_slot_def split: sum.splits option.splits)

lemma to_time_slot_datetime_opt:
  "to_time_slot P slot = Inr t \<Longrightarrow> datetime t = opt_chain slot ''start_time''"
  by (auto simp: to_time_slot_def split: sum.splits option.splits)

lemma timeSlots_Inr:
  assumes "timeSlots P (JArr xs) = Inr ts"
  shows "list_all2 (\<lambda>slot t. to_time_slot P slot = Inr t) (filter (\<lambda>x. slot_available x = Inr True) xs) ts"
proof -
  from assms obtain ys where f: "filter_exn slot_available xs = Inr ys"
    and m: "map_exn (to_time_slot P) ys = Inr ts"
    by (auto split: sum.splits)
  from f have "ys = filter (\<lambda>x. slot_available x = Inr True) xs" by (rule filter_exn_Inr)
  with map_exn_Inr [OF m] show ?thesis by simp
qed

text \<open>
  Claim C3. Every time slot that \<^verbatim>\<open>timeSlots\<close> produces comes from a slot of the source
  whose \<^verbatim>\<open>available\<close> is true (truthy, as \<^verbatim>\<open>filter\<close> tests it) and carries that slot's start
  time; when every slot of the source is marked unavailable the result is the empty
  list, not an error.
\<close>

theorem timeSlots_only_available:
  "(timeSlots P (JArr xs) = Inr ts \<longrightarrow>
      (\<forall>t\<in>set ts. \<exists>slot\<in>set xs.
          slot_available slot = Inr True \<and> get_prop slot ''start_time'' = Inr (datetime t))) \<and>
   ((\<forall>slot\<in>set xs. slot_available slot = Inr False) \<longrightarrow> timeSlots P (JArr xs) = Inr [])"
proof (intro conjI impI ballI)
  fix t assume a: "timeSlots P (JArr xs) = Inr ts" and t: "t \<in> set ts"
  let ?ys = "filter (\<lambda>x. slot_available x = Inr True) xs"
  from list_all2_right_witness [OF timeSlots_Inr [OF a] t]
  obtain slot where "slot \<in> set ?ys" "to_time_slot P slot = Inr t"
    by blast
  then show "\<exists>slot\<in>set xs. slot_available slot = Inr True \<and> get_prop slot ''start_time'' = Inr (datetime t)"
    by (auto dest: to_time_slot_datetime)
next
  assume "\<forall>slot\<in>set xs. slot_available slot = Inr False"
  then have "filter_exn slot_available xs = Inr []" by (intro filter_exn_none) simp
  then show "timeSlots P (JArr xs) = Inr []" by simp
qed

theorem timeSlots_only_available_witness:
  "timeSlots utc_sample (JArr [taken_slot, free_slot_9]) =
     Inr [\<lparr>slot_value = ''09:00'', slot_label = ''09:00'', datetime = JStr ''2026-11-03T09:00:00.000Z''\<rparr>] \<and>
   (\<exists>slot\<in>set [taken_slot, free_slot_9]. slot_available slot = Inr True \<and>
      get_prop slot ''start_time'' = Inr (JStr ''2026-11-03T09:00:00.000Z'')) \<and>
   timeSlots utc_sample (JArr [taken_slot]) = Inr []"
proof -
  have e: "timeSlots utc_sample (JArr [taken_slot, free_slot_9]) =
     Inr [\<lparr>slot_value = ''09:00'', slot_label = ''09:00'', datetime = JStr ''2026-11-03T09:00:00.000Z''\<rparr>]"
    by code_simp
  have u: "\<forall>slot\<in>set [taken_slot]. slot_available slot = Inr False"
    by (simp add: taken_slot_def slot_available_def)
  show ?thesis
    using e u
      timeSlots_only_available [of utc_sample "[taken_slot, free_slot_9]"
        "[\<lparr>slot_value = ''09:00'', slot_label = ''09:00'', datetime = JStr ''2026-11-03T09:00:00.000Z''\<rparr>]"]
      timeSlots_only_available [of utc_sample "[taken_slot]" "[]"]
    by simp
qed

lemma map_filter_subset: "set (List.map_filter h (filter q xs)) \<subseteq> set (List.map_filter h xs)"
  by (auto simp: List.map_filter_def)

lemma sorted_map_filter_filter:
  "sorted (List.map_filter h xs) \<Longrightarrow> sorted (List.map_filter h (filter q xs))"
proof (induction xs)
  case Nil
  then show ?case by simp
next
  case (Cons x xs)
  show ?case
  proof (cases "h x")
    case None
    with Cons show ?thesis by simp
  next
    case (Some y)
    with Cons.prems have s: "sorted (List.map_filter h xs)" and le: "\<forall>z\<in>set (List.map_filter h xs). y \<le> z"
      by simp_all
    from le map_filter_subset [of h q xs] have "\<forall>z\<in>set (List.map_filter h (filter q xs)). y \<le> z"
      by blast
    with Some Cons.IH [OF s] show ?thesis by simp
  qed
qed

lemma timeSlots_datetimes:
  assumes "timeSlots P (JArr xs) = Inr ts"
  shows "map datetime ts =
     map (\<lambda>slot. opt_chain slot ''start_time'') (filter (\<lambda>slot. slot_available slot = Inr True) xs)"
proof -
  have "list_all2 (\<lambda>slot t. datetime t = opt_chain slot ''start_time'')
          (filter (\<lambda>x. slot_available x = Inr True) xs) ts"
    using timeSlots_Inr [OF assms] by (rule list_all2_mono) (simp add: to_time_slot_datetime_opt)
  then show ?thesis
    by (induction rule: list_all2_induct) simp_all
qed

lemma fetch_requests:
  assumes "watchedDate \<noteq> []"
    "newDate P (JStr (watchedDate @ ''T09:00:00'')) = Some t1"
    "newDate P (JStr (watchedDate @ ''T18:00:00'')) = Some t2"
  shows "requests (fetchAvailableSlots P watchedDate (Some svc) r w) =
      requests w @ [GetAvailability (JObj
         [(''start_date'', JStr (toISOString P t1)),
          (''end_date'', JStr (toISOString P t2)),
          (''duration_minutes'', JNum (duration svc))])]"
  using assms
  by (auto simp: fetchAvailableSlots_def fetch_try_def Let_def
      split: reply.splits sum.splits prod.splits dest!: rejected_eqD)

lemma fetch_slots:
  assumes "watchedDate \<noteq> []"
    "newDate P (JStr (watchedDate @ ''T09:00:00'')) = Some t1"
    "newDate P (JStr (watchedDate @ ''T18:00:00'')) = Some t2"
    "get_prop response ''data'' = Inr d" "get_prop d ''available_slots'' = Inr (JArr xs)"
  shows "slots (fetchAvailableSlots P watchedDate (Some svc) (Resolve response) w) = JArr xs"
  using assms by (simp add: fetchAvailableSlots_def fetch_try_def Let_def js_or_def)

text \<open>
  Claim C8, as the code has it. With a date and a service chosen,
  \<^verbatim>\<open>fetchAvailableSlots\<close> sends one availability request, from 09:00:00 to 18:00:00 local
  time of that date and with the duration of the service. When the source answers with
  an array of slots, the component stores that array as it is, and the start times of
  the time slots are those of the array's available slots, in the order of the array:
  the code never sorts. So the time slots are in ascending order exactly when the
  available slots of the answer are, and in particular whenever the whole answer is.
\<close>

theorem fetch_window_and_order:
  assumes "watchedDate \<noteq> []"
    "newDate P (JStr (watchedDate @ ''T09:00:00'')) = Some t1"
    "newDate P (JStr (watchedDate @ ''T18:00:00'')) = Some t2"
  shows "requests (fetchAvailableSlots P watchedDate (Some svc) r w) =
        requests w @ [GetAvailability (JObj
           [(''start_date'', JStr (toISOString P t1)),
            (''end_date'', JStr (toISOString P t2)),
            (''duration_minutes'', JNum (duration svc))])] \<and>
   (get_prop response ''data'' = Inr d \<and> get_prop d ''available_slots'' = Inr (JArr xs) \<longrightarrow>
      slots (fetchAvailableSlots P watchedDate (Some svc) (Resolve response) w) = JArr xs \<and>
      (timeSlots P (slots (fetchAvailableSlots P watchedDate (Some svc) (Resolve response) w)) = Inr ts \<longrightarrow>
         map datetime ts =
           map (\<lambda>slot. opt_chain slot ''start_time'') (filter (\<lambda>slot. slot_available slot = Inr True) xs) \<and>
         (ascending P (map datetime ts) \<longleftrightarrow>
            ascending P (map (\<lambda>slot. opt_chain slot ''start_time'')
              (filter (\<lambda>slot. slot_available slot = Inr True) xs))) \<and>
         (ascending P (map (\<lambda>slot. opt_chain slot ''start_time'') xs) \<longrightarrow> ascending P (map datetime ts))))"
proof (intro conjI impI)
  show "requests (fetchAvailableSlots P watchedDate (Some svc) r w) =
        requests w @ [GetAvailability (JObj
           [(''start_date'', JStr (toISOString P t1)),
            (''end_date'', JStr (toISOString P t2)),
            (''duration_minutes'', JNum (duration svc))])]"
    using assms by (rule fetch_requests)
next
  assume b: "get_prop response ''data'' = Inr d \<and> get_prop d ''available_slots'' = Inr (JArr xs)"
  then show s: "slots (fetchAvailableSlots P watchedDate (Some svc) (Resolve response) w) = JArr xs"
    using assms by (simp add: fetch_slots)
  assume "timeSlots P (slots (fetchAvailableSlots P watchedDate (Some svc) (Resolve response) w)) = Inr ts"
  with s have a: "timeSlots P (JArr xs) = Inr ts" by simp
  then show m: "map datetime ts =
        map (\<lambda>slot. opt_chain slot ''start_time'') (filter (\<lambda>slot. slot_available slot = Inr True) xs)"
    by (rule timeSlots_datetimes)
  then show "ascending P (map datetime ts) \<longleftrightarrow>
       ascending P (map (\<lambda>slot. opt_chain slot ''start_time'')
         (filter (\<lambda>slot. slot_available slot = Inr True) xs))"
    by simp
  assume "ascending P (map (\<lambda>slot. opt_chain slot ''start_time'') xs)"
  then have "sorted (List.map_filter (\<lambda>slot. newDate P (opt_chain slot ''start_time'')) xs)"
    by (simp add: ascending_def List.map_filter_def filter_map comp_def)
  then have "sorted (List.map_filter (\<lambda>slot. newDate P (opt_chain slot ''start_time''))
      (filter (\<lambda>slot. slot_available slot = Inr True) xs))"
    by (rule sorted_map_filter_filter)
  then show "ascending P (map datetime ts)"
    by (simp add: m ascending_def List.map_filter_def filter_map comp_def)
qed

theorem fetch_window_and_order_witness:
  "requests (fetchAvailableSlots utc_sample ''2026-11-03'' (Some haircut) (Resolve ordered_slots_response) initial_world) =
     [GetAvailability (JObj
        [(''start_date'', JStr ''2026-11-03T09:00:00.000Z''),
         (''end_date'', JStr ''2026-11-03T18:00:00.000Z''),
         (''duration_minutes'', JNum 30)])] \<and>
   slots (fetchAvailableSlots utc_sample ''2026-11-03'' (Some haircut) (Resolve ordered_slots_response) initial_world) =
     JArr [free_slot_9, taken_slot, free_slot_10] \<and>
   timeSlots utc_sample (slots (fetchAvailableSlots utc_sample ''2026-11-03'' (Some haircut)
       (Resolve ordered_slots_response) initial_world)) =
     Inr [\<lparr>slot_value = ''09:00'', slot_label = ''09:00'', datetime = JStr ''2026-11-03T09:00:00.000Z''\<rparr>,
          \<lparr>slot_value = ''10:00'', slot_label = ''10:00'', datetime = JStr ''2026-11-03T10:00:00.000Z''\<rparr>] \<and>
   ascending utc_sample [JStr ''2026-11-03T09:00:00.000Z'', JStr ''2026-11-03T10:00:00.000Z'']"
proof -
  have h1: "''2026-11-03'' \<noteq> []" by simp
  have h2: "newDate utc_sample (JStr (''2026-11-03'' @ ''T09:00:00'')) = Some 1793696400000"
    and h3: "newDate utc_sample (JStr (''2026-11-03'' @ ''T18:00:00'')) = Some 1793728800000"
    by code_simp+
  have b: "get_prop ordered_slots_response ''data'' =
        Inr (JObj [(''available_slots'', JArr [free_slot_9, taken_slot, free_slot_10])]) \<and>
      get_prop (JObj [(''available_slots'', JArr [free_slot_9, taken_slot, free_slot_10])]) ''available_slots'' =
        Inr (JArr [free_slot_9, taken_slot, free_slot_10])"
    by (simp add: ordered_slots_response_def)
  have i: "toISOString utc_sample 1793696400000 = ''2026-11-03T09:00:00.000Z''"
    "toISOString utc_sample 1793728800000 = ''2026-11-03T18:00:00.000Z''"
    "duration haircut = 30" "requests initial_world = []"
    by code_simp+
  have a: "ascending utc_sample (map (\<lambda>slot. opt_chain slot ''start_time'') [free_slot_9, taken_slot, free_slot_10])"
    by code_simp
  have e: "timeSlots utc_sample (JArr [free_slot_9, taken_slot, free_slot_10]) =
     Inr [\<lparr>slot_value = ''09:00'', slot_label = ''09:00'', datetime = JStr ''2026-11-03T09:00:00.000Z''\<rparr>,
          \<lparr>slot_value = ''10:00'', slot_label = ''10:00'', datetime = JStr ''2026-11-03T10:00:00.000Z''\<rparr>]"
    by code_simp
  note t = fetch_window_and_order [OF h1 h2 h3, where svc = haircut
        and r = "Resolve ordered_slots_response" and w = initial_world
        and response = ordered_slots_response
        and d = "JObj [(''available_slots'', JArr [free_slot_9, taken_slot, free_slot_10])]"
        and xs = "[free_slot_9, taken_slot, free_slot_10]"
        and ts = "[\<lparr>slot_value = ''09:00'', slot_label = ''09:00'', datetime = JStr ''2026-11-03T09:00:00.000Z''\<rparr>,
          \<lparr>slot_value = ''10:00'', slot_label = ''10:00'', datetime = JStr ''2026-11-03T10:00:00.000Z''\<rparr>]"]
  from t [THEN conjunct1] i
  have r: "requests (fetchAvailableSlots utc_sample ''2026-11-03'' (Some haircut) (Resolve ordered_slots_response) initial_world) =
     [GetAvailability (JObj
        [(''start_date'', JStr ''2026-11-03T09:00:00.000Z''),
         (''end_date'', JStr ''2026-11-03T18:00:00.000Z''),
         (''duration_minutes'', JNum 30)])]"
    by simp
  from t [THEN conjunct2] b
  have s: "slots (fetchAvailableSlots utc_sample ''2026-11-03'' (Some haircut) (Resolve ordered_slots_response) initial_world) =
     JArr [free_slot_9, taken_slot, free_slot_10]"
    by blast
  with e have e': "timeSlots utc_sample (slots (fetchAvailableSlots utc_sample ''2026-11-03'' (Some haircut)
       (Resolve ordered_slots_response) initial_world)) =
     Inr [\<lparr>slot_value = ''09:00'', slot_label = ''09:00'', datetime = JStr ''2026-11-03T09:00:00.000Z''\<rparr>,
          \<lparr>slot_value = ''10:00'', slot_label = ''10:00'', datetime = JStr ''2026-11-03T10:00:00.000Z''\<rparr>]"
    by simp
  from t [THEN conjunct2] b e' a
  have "ascending utc_sample (map datetime
        [\<lparr>slot_value = ''09:00'', slot_label = ''09:00'', datetime = JStr ''2026-11-03T09:00:00.000Z''\<rparr>,
          \<lparr>slot_value = ''10:00'', slot_label = ''10:00'', datetime = JStr ''2026-11-03T10:00:00.000Z''\<rparr>])"
    by blast
  then have o: "ascending utc_sample [JStr ''2026-11-03T09:00:00.000Z'', JStr ''2026-11-03T10:00:00.000Z'']"
    by simp
  show ?thesis using r s e' o by simp
qed

text \<open>
  Claim C8 as stated fails: the source lists the free slot of ten before the free slot
  of nine, and so does the result.
\<close>

theorem unordered_slots_stay_unordered:
  "timeSlots utc_sample (slots (fetchAvailableSlots utc_sample ''2026-11-03'' (Some haircut)
       (Resolve unordered_slots_response) initial_world)) =
     Inr [\<lparr>slot_value = ''10:00'', slot_label = ''10:00'', datetime = JStr ''2026-11-03T10:00:00.000Z''\<rparr>,
          \<lparr>slot_value = ''09:00'', slot_label = ''09:00'', datetime = JStr ''2026-11-03T09:00:00.000Z''\<rparr>] \<and>
   newDate utc_sample (JStr ''2026-11-03T10:00:00.000Z'') = Some 1793700000000 \<and>
   newDate utc_sample (JStr ''2026-11-03T09:00:00.000Z'') = Some 1793696400000 \<and>
   \<not> ascending utc_sample [JStr ''2026-11-03T10:00:00.000Z'', JStr ''2026-11-03T09:00:00.000Z'']"
  by code_simp

text \<open>
  Claim C10. When the availability request succeeds with a body that has no
  \<^verbatim>\<open>available_slots\<close> (\<^verbatim>\<open>undefined\<close> or \<^verbatim>\<open>null\<close>), the component stores the empty list, the
  time slots are empty, and the error of the store is what it was.
\<close>

theorem missing_slots_field_gives_empty:
  assumes "watchedDate \<noteq> []"
    "newDate P (JStr (watchedDate @ ''T09:00:00'')) = Some t1"
    "newDate P (JStr (watchedDate @ ''T18:00:00'')) = Some t2"
    "get_prop response ''data'' = Inr d" "\<not> nullish d"
    "nullish (opt_chain d ''available_slots'')"
  shows "slots (fetchAvailableSlots P watchedDate (Some svc) (Resolve response) w) = JArr [] \<and>
     timeSlots P (slots (fetchAvailableSlots P watchedDate (Some svc) (Resolve response) w)) = Inr [] \<and>
     error (store (fetchAvailableSlots P watchedDate (Some svc) (Resolve response) w)) = error (store w) \<and>
     loading (store (fetchAvailableSlots P watchedDate (Some svc) (Resolve response) w)) = JBool False"
proof -
  from assms(5) obtain v where v: "get_prop d ''available_slots'' = Inr v"
    by (cases d) simp_all
  with assms(6) have "nullish v" by simp
  then have o: "js_or v (JArr []) = JArr []" by (cases v) (simp_all add: js_or_def)
  have s: "slots (fetchAvailableSlots P watchedDate (Some svc) (Resolve response) w) = JArr []"
    using assms(1-4) v o by (simp add: fetchAvailableSlots_def fetch_try_def Let_def)
  have e: "error (store (fetchAvailableSlots P watchedDate (Some svc) (Resolve response) w)) = error (store w)"
    "loading (store (fetchAvailableSlots P watchedDate (Some svc) (Resolve response) w)) = JBool False"
    using assms(1-4) v by (simp_all add: fetchAvailableSlots_def fetch_try_def Let_def)
  show ?thesis using s e by simp
qed

theorem missing_slots_field_gives_empty_witness:
  "''2026-11-03'' \<noteq> [] \<and>
   newDate utc_sample (JStr (''2026-11-03'' @ ''T09:00:00'')) = Some 1793696400000 \<and>
   newDate utc_sample (JStr (''2026-11-03'' @ ''T18:00:00'')) = Some 1793728800000 \<and>
   get_prop no_slots_field_response ''data'' = Inr (JObj [(''message'', JStr ''closed'')]) \<and>
   nullish (opt_chain (JObj [(''message'', JStr ''closed'')]) ''available_slots'') \<and>
   slots (fetchAvailableSlots utc_sample ''2026-11-03'' (Some haircut) (Resolve no_slots_field_response) initial_world) = JArr [] \<and>
   timeSlots utc_sample (slots (fetchAvailableSlots utc_sample ''2026-11-03'' (Some haircut)
      (Resolve no_slots_field_response) initial_world)) = Inr [] \<and>
   error (store (fetchAvailableSlots utc_sample ''2026-11-03'' (Some haircut)
      (Resolve no_slots_field_response) initial_world)) = JNull"
proof -
  have h1: "''2026-11-03'' \<noteq> []" by simp
  have h2: "newDate utc_sample (JStr (''2026-11-03'' @ ''T09:00:00'')) = Some 1793696400000"
    and h3: "newDate utc_sample (JStr (''2026-11-03'' @ ''T18:00:00'')) = Some 1793728800000"
    by code_simp+
  have h4: "get_prop no_slots_field_response ''data'' = Inr (JObj [(''message'', JStr ''closed'')])"
    by (simp add: no_slots_field_response_def)
  have h5: "\<not> nullish (JObj [(''message'', JStr ''closed'')])" by simp
  have h6: "nullish (opt_chain (JObj [(''message'', JStr ''closed'')]) ''available_slots'')" by simp
  have e: "error (store initial_world) = JNull" by (simp add: initial_world_def initialState_def)
  show ?thesis
    using missing_slots_field_gives_empty [OF h1 h2 h3 h4 h5 h6, of haircut initial_world] h1 h2 h3 h4 h6 e
    by simp
qed

section \<open>Submitting a booking\<close>

lemma phone_empty: "\<not> matches phone_pattern []"
  by code_simp

lemma check_field_None_iff:
  "check_field rs v = None \<longleftrightarrow>
     (if v = [] then \<not> required rs
      else (case minLength rs of None \<Rightarrow> True | Some n \<Rightarrow> n \<le> length v) \<and>
           (case pattern rs of None \<Rightarrow> True | Some r \<Rightarrow> matches r v))"
  by (auto simp: check_field_def split: option.splits)

lemma validate_eq:
  "validate d =
     (case check_field \<lparr>required = True, minLength = Some 2, pattern = None\<rparr> (customer_name d) of
        None \<Rightarrow> [] | Some x \<Rightarrow> [(''customer_name'', x)]) @
     (case check_field \<lparr>required = True, minLength = None, pattern = Some phone_pattern\<rparr> (customer_phone d) of
        None \<Rightarrow> [] | Some x \<Rightarrow> [(''customer_phone'', x)]) @
     (case check_field \<lparr>required = False, minLength = None, pattern = Some email_pattern\<rparr> (customer_email d) of
        None \<Rightarrow> [] | Some x \<Rightarrow> [(''customer_email'', x)]) @
     (case check_field \<lparr>required = True, minLength = None, pattern = None\<rparr> (service_type d) of
        None \<Rightarrow> [] | Some x \<Rightarrow> [(''service_type'', x)]) @
     (case check_field \<lparr>required = True, minLength = None, pattern = None\<rparr> (appointment_date d) of
        None \<Rightarrow> [] | Some x \<Rightarrow> [(''appointment_date'', x)]) @
     (case check_field \<lparr>required = True, minLength = None, pattern = None\<rparr> (appointment_time d) of
        None \<Rightarrow> [] | Some x \<Rightarrow> [(''appointment_time'', x)])"
  by (simp add: validate_def registered_def split: option.splits)

lemma case_Nil_iff: "(case x of None \<Rightarrow> [] | Some y \<Rightarrow> [f y]) = [] \<longleftrightarrow> x = None"
  by (cases x) simp_all

lemma validate_Nil_iff:
  "validate d = [] \<longleftrightarrow>
     customer_name d \<noteq> [] \<and> 2 \<le> length (customer_name d) \<and>
     matches phone_pattern (customer_phone d) \<and>
     (customer_email d = [] \<or> matches email_pattern (customer_email d)) \<and>
     service_type d \<noteq> [] \<and> appointment_date d \<noteq> [] \<and> appointment_time d \<noteq> []"
  unfolding validate_eq
  using phone_empty by (auto simp add: case_Nil_iff check_field_None_iff)

lemma find_distinct_key:
  "distinct (map k xs) \<Longrightarrow> x \<in> set xs \<Longrightarrow> find (\<lambda>s. k s = k x) xs = Some x"
  by (induction xs) (auto simp: image_iff)

lemma serviceTypes_distinct: "distinct (map svalue serviceTypes)"
  by (simp add: serviceTypes_def)

lemma selectedService_of_known:
  "svc \<in> set serviceTypes \<Longrightarrow> selectedService_of (svalue svc) = Some svc"
  unfolding selectedService_of_def
  by (rule find_distinct_key [OF serviceTypes_distinct])

lemma haircut_entry:
  "svc \<in> set serviceTypes \<Longrightarrow> svalue svc = ''haircut'' \<Longrightarrow> price svc = 25 \<and> duration svc = 30"
  by (auto simp: serviceTypes_def)

lemma selectedService_of_Some:
  "selectedService_of v = Some svc \<Longrightarrow> svc \<in> set serviceTypes \<and> svalue svc = v"
  by (auto simp: selectedService_of_def find_Some_iff)



lemma submit_try_requests:
  "requests (case submit_try P sel d r w of Inl (e, w') \<Rightarrow> w' | Inr w' \<Rightarrow> w') \<noteq> requests w \<Longrightarrow> sel \<noteq> None"
  by (auto simp: submit_try_def Let_def split: option.splits)

lemma onSubmit_requests:
  "requests (snd (onSubmit P sel d r w)) \<noteq> requests w \<Longrightarrow> sel \<noteq> None"
  using submit_try_requests [of P sel d r w]
  by (cases "submit_try P sel d r w")
     (auto simp: onSubmit_def submit_catch_def Let_def split: sum.splits prod.splits)

lemma submit_sends:
  assumes "svc \<in> set serviceTypes" "service_type d = svalue svc" "validate d = []"
    "newDate P (JStr (appointment_date d @ ''T'' @ appointment_time d)) = Some t"
  shows "requests (snd (submit P d r w)) = requests w @ [CreateAppointment (JObj
               [(''customer_name'', JStr (customer_name d)),
                (''customer_phone'', JStr (customer_phone d)),
                (''customer_email'', js_or (JStr (customer_email d)) JNull),
                (''appointment_datetime'', JStr (toISOString P t)),
                (''service_type'', JStr (service_type d)),
                (''service_duration'', JNum (duration svc)),
                (''service_price'', JNum (price svc)),
                (''notes'', js_or (JStr (notes d)) JNull),
                (''requires_prepayment'', js_or (JBool (requires_prepayment d)) (JBool False))])]"
proof -
  have s: "selectedService_of (service_type d) = Some svc"
    using assms(1,2) by (simp add: selectedService_of_known)
  show ?thesis
    using assms(3,4) s
    by (cases r)
       (auto simp: submit_def rhf_handleSubmit_def onSubmit_def submit_try_def submit_catch_def Let_def
             split: sum.splits prod.splits option.splits dest!: rejected_eqD)
qed

text \<open>
  Claim C2. If submitting a draft sends any request, the draft has passed every local
  validation: a name of at least two characters, a telephone number of the accepted
  shape, an e-mail address that is empty or well formed, a service of the catalog, a date
  and a time. A draft whose telephone number is \<^verbatim>\<open>abc\<close> is answered with a validation
  error on \<^verbatim>\<open>customer_phone\<close> and nothing else happens: no request, no change of the store.
\<close>

theorem submit_no_call_before_validation:
  "(requests (snd (submit P d r w)) \<noteq> requests w \<longrightarrow> locally_valid d) \<and>
   (customer_phone d = ''abc'' \<longrightarrow>
      (\<exists>errs. submit P d r w = (Invalid errs, w) \<and> (''customer_phone'', Pattern) \<in> set errs))"
proof (intro conjI impI)
  assume a: "requests (snd (submit P d r w)) \<noteq> requests w"
  then have v: "validate d = []"
    by (auto simp: submit_def rhf_handleSubmit_def split: if_splits)
  with a have "requests (snd (onSubmit P (selectedService_of (service_type d)) d r w)) \<noteq> requests w"
    by (auto simp: submit_def rhf_handleSubmit_def split: prod.splits option.splits)
  then obtain svc where "selectedService_of (service_type d) = Some svc"
    using onSubmit_requests by blast
  then have "service_type d \<in> svalue ` set serviceTypes"
    by (metis selectedService_of_Some imageI)
  with v show "locally_valid d"
    by (simp add: locally_valid_def validate_Nil_iff)
next
  assume a: "customer_phone d = ''abc''"
  have m: "\<not> matches phone_pattern ''abc''" by code_simp
  with a have n: "validate d \<noteq> []" by (simp add: validate_Nil_iff)
  have "check_field \<lparr>required = True, minLength = None, pattern = Some phone_pattern\<rparr> ''abc'' = Some Pattern"
    using m by (simp add: check_field_def)
  with a have "(''customer_phone'', Pattern) \<in> set (validate d)"
    by (simp add: validate_eq)
  with n show "\<exists>errs. submit P d r w = (Invalid errs, w) \<and> (''customer_phone'', Pattern) \<in> set errs"
    by (simp add: submit_def rhf_handleSubmit_def)
qed

theorem submit_no_call_before_validation_witness:
  "requests (snd (submit utc_sample mario_draft (Resolve created_response) initial_world)) \<noteq> requests initial_world \<and>
   locally_valid mario_draft \<and>
   customer_phone abc_draft = ''abc'' \<and>
   submit utc_sample abc_draft (Resolve created_response) initial_world =
     (Invalid [(''customer_phone'', Pattern)], initial_world)"
proof -
  have h1: "requests (snd (submit utc_sample mario_draft (Resolve created_response) initial_world)) \<noteq> requests initial_world"
    by code_simp
  have h2: "customer_phone abc_draft = ''abc''"
    by (simp add: abc_draft_def)
  have e: "validate abc_draft = [(''customer_phone'', Pattern)]"
    by code_simp
  note t1 = submit_no_call_before_validation [where P = utc_sample and d = mario_draft
      and r = "Resolve created_response" and w = initial_world]
  note t2 = submit_no_call_before_validation [where P = utc_sample and d = abc_draft
      and r = "Resolve created_response" and w = initial_world]
  from t1 [THEN conjunct1] h1 have v: "locally_valid mario_draft" by blast
  from t2 [THEN conjunct2] h2 obtain errs where
    s: "submit utc_sample abc_draft (Resolve created_response) initial_world = (Invalid errs, initial_world)"
    by blast
  then have "errs = validate abc_draft"
    by (simp add: submit_def rhf_handleSubmit_def split: if_splits prod.splits option.splits)
  with s e have "submit utc_sample abc_draft (Resolve created_response) initial_world =
     (Invalid [(''customer_phone'', Pattern)], initial_world)"
    by simp
  with h1 h2 v show ?thesis by simp
qed

text \<open>
  Claim C5. For a valid draft whose service is in the catalog, the one creation request
  carries the duration and the price of the catalog entry of that service, and as
  \<^verbatim>\<open>appointment_datetime\<close> the ISO timestamp of the date and the time joined by \<^verbatim>\<open>T\<close>;
  for \<^verbatim>\<open>haircut\<close> the price is 25 and the duration 30.
\<close>

theorem submit_request_from_catalog:
  assumes "svc \<in> set serviceTypes" "service_type d = svalue svc" "validate d = []"
    "newDate P (JStr (appointment_date d @ ''T'' @ appointment_time d)) = Some t"
  shows "\<exists>body. requests (snd (submit P d r w)) = requests w @ [CreateAppointment body] \<and>
     get_prop body ''service_duration'' = Inr (JNum (duration svc)) \<and>
     get_prop body ''service_price'' = Inr (JNum (price svc)) \<and>
     get_prop body ''appointment_datetime'' = Inr (JStr (toISOString P t)) \<and>
     (service_type d = ''haircut'' \<longrightarrow>
        get_prop body ''service_price'' = Inr (JNum 25) \<and>
        get_prop body ''service_duration'' = Inr (JNum 30))"
proof -
  have h: "service_type d = ''haircut'' \<longrightarrow> price svc = 25 \<and> duration svc = 30"
    using assms(1,2) haircut_entry [of svc] by simp
  show ?thesis
    using submit_sends [OF assms, of r w] h by simp
qed

theorem submit_request_from_catalog_witness:
  "haircut \<in> set serviceTypes \<and> service_type mario_draft = svalue haircut \<and> validate mario_draft = [] \<and>
   newDate utc_sample (JStr (appointment_date mario_draft @ ''T'' @ appointment_time mario_draft)) = Some 1793700000000 \<and>
   (\<exists>body. requests (snd (submit utc_sample mario_draft (Resolve created_response) initial_world)) =
        [CreateAppointment body] \<and>
      get_prop body ''service_duration'' = Inr (JNum 30) \<and>
      get_prop body ''service_price'' = Inr (JNum 25) \<and>
      get_prop body ''appointment_datetime'' = Inr (JStr ''2026-11-03T10:00:00.000Z''))"
proof -
  have h1: "haircut \<in> set serviceTypes" by code_simp
  have h2: "service_type mario_draft = svalue haircut" by code_simp
  have h3: "validate mario_draft = []" by code_simp
  have h4: "newDate utc_sample (JStr (appointment_date mario_draft @ ''T'' @ appointment_time mario_draft)) = Some 1793700000000"
    by code_simp
  have i: "toISOString utc_sample 1793700000000 = ''2026-11-03T10:00:00.000Z''"
    "requests initial_world = []" "service_type mario_draft = ''haircut''"
    by code_simp+
  from submit_request_from_catalog [OF h1 h2 h3 h4, of "Resolve created_response" initial_world] i
  have "\<exists>body. requests (snd (submit utc_sample mario_draft (Resolve created_response) initial_world)) =
        [CreateAppointment body] \<and>
      get_prop body ''service_duration'' = Inr (JNum 30) \<and>
      get_prop body ''service_price'' = Inr (JNum 25) \<and>
      get_prop body ''appointment_datetime'' = Inr (JStr ''2026-11-03T10:00:00.000Z'')"
    by auto
  with h1 h2 h3 h4 show ?thesis by blast
qed









section \<open>Confirming a payment\<close>

lemma confirmed_handles_append:
  "confirmed_handles (qs @ qs') = confirmed_handles qs @ confirmed_handles qs'"
  by (induction qs rule: confirmed_handles.induct) simp_all

lemma confirmed_handles_payment_requests:
  "confirmed_handles (payment_requests origin appointment em issued) =
     (case issued of None \<Rightarrow> [] | Some h \<Rightarrow> [h])"
  by (cases issued) (simp_all add: payment_requests_def)

lemma after_confirm_frame:
  "sent (case after_confirm a res c of Inl (e, c') \<Rightarrow> c' | Inr c' \<Rightarrow> c') = sent c"
  "email (case after_confirm a res c of Inl (e, c') \<Rightarrow> c' | Inr c' \<Rightarrow> c') = email c"
  by (auto simp: after_confirm_def split: sum.splits)

lemma checkout_try_frame:
  assumes "\<not> nullish appointment"
  shows "sent (case checkout_try origin appointment ir cr c of
            Done c' \<Rightarrow> c' | Thrown e c' \<Rightarrow> c' | Suspended c' \<Rightarrow> c') =
         sent c @ payment_requests origin appointment (email c) (issued_handle ir) \<and>
         email (case checkout_try origin appointment ir cr c of
            Done c' \<Rightarrow> c' | Thrown e c' \<Rightarrow> c' | Suspended c' \<Rightarrow> c') = email c"
proof -
  from assms obtain amount appointmentId where
    g: "get_prop appointment ''service_price'' = Inr amount" "get_prop appointment ''id'' = Inr appointmentId"
    by (cases appointment) simp_all
  then have o: "opt_chain appointment ''service_price'' = amount" "opt_chain appointment ''id'' = appointmentId"
    by simp_all
  show ?thesis
  proof (cases "issued_handle ir")
    case None
    then show ?thesis
      using g o by (auto simp: checkout_try_def issued_handle_def payment_requests_def Let_def
          split: reply.splits sum.splits prod.splits)
  next
    case (Some h)
    then obtain resp d where r: "ir = Resolve resp" "get_prop resp ''data'' = Inr d"
      "get_prop d ''client_secret'' = Inr h"
      by (auto simp: issued_handle_def split: reply.splits sum.splits)
    show ?thesis
    proof (cases cr)
      case Redirected
      then show ?thesis using g o r Some by (simp add: checkout_try_def payment_requests_def Let_def)
    next
      case (Settled x)
      show ?thesis
      proof (cases x)
        case (Reject e)
        then show ?thesis using g o r Some Settled
          by (simp add: checkout_try_def payment_requests_def Let_def)
      next
        case (Resolve res)
        let ?c2 = "c\<lparr>sent := sent c @ [CreateIntent amount (JStr ''eur'') appointmentId,
           ConfirmPayment h (confirmParams origin appointment (email c))]\<rparr>"
        have "sent (case after_confirm appointment res ?c2 of Inl (e, c') \<Rightarrow> c' | Inr c' \<Rightarrow> c') = sent ?c2"
          "email (case after_confirm appointment res ?c2 of Inl (e, c') \<Rightarrow> c' | Inr c' \<Rightarrow> c') = email ?c2"
          by (rule after_confirm_frame)+
        then show ?thesis using g o r Some Settled Resolve
          by (auto simp: checkout_try_def payment_requests_def Let_def split: sum.splits)
      qed
    qed
  qed
qed

lemma checkout_handleSubmit_frame:
  assumes "\<not> nullish appointment"
  shows "sent (checkout_handleSubmit True True origin appointment ir cr c) =
           sent c @ payment_requests origin appointment (email c) (issued_handle ir) \<and>
         email (checkout_handleSubmit True True origin appointment ir cr c) = email c"
  using checkout_try_frame [OF assms, of origin ir cr "c\<lparr>isProcessing := True, message := No_message\<rparr>"]
  by (cases "checkout_try origin appointment ir cr (c\<lparr>isProcessing := True, message := No_message\<rparr>)")
     (simp_all add: checkout_handleSubmit_def)

lemma checkout_run_frame:
  assumes "\<not> nullish appointment"
  shows "sent (checkout_run origin appointment rs c) =
           sent c @ concat (map (\<lambda>(ir, cr). payment_requests origin appointment (email c) (issued_handle ir)) rs) \<and>
         email (checkout_run origin appointment rs c) = email c"
proof (induction rs arbitrary: c)
  case Nil
  then show ?case by simp
next
  case (Cons x rs)
  obtain ir cr where x: "x = (ir, cr)" by (cases x)
  show ?case
    using Cons.IH [of "checkout_handleSubmit True True origin appointment ir cr c"]
      checkout_handleSubmit_frame [OF assms, of origin ir cr c]
    by (simp add: x)
qed

lemma confirmed_handles_concat:
  "confirmed_handles (concat (map (\<lambda>(ir, cr). payment_requests origin appointment em (issued_handle ir)) rs)) =
     List.map_filter (\<lambda>(ir, cr). issued_handle ir) rs"
proof (induction rs)
  case Nil
  then show ?case by simp
next
  case (Cons x rs)
  obtain ir cr where x: "x = (ir, cr)" by (cases x)
  show ?case
    using Cons.IH
    by (cases "issued_handle ir")
       (simp_all add: x confirmed_handles_append confirmed_handles_payment_requests)
qed

text \<open>
  Claim C1 as stated fails. The first payment has succeeded; the button is pressed
  again, the backend answers the authorization request with the same payment intent,
  and a second confirm request is sent for the handle that was already resolved.
\<close>

theorem second_confirm_for_resolved_handle:
  "message first_payment = Success_message \<and>
   confirmed_handles (sent first_payment) = [JStr ''pi_7_secret_x''] \<and>
   confirmed_handles (sent (checkout_handleSubmit True True shop_origin mario_appointment
       (Resolve intent_response) (Settled (Resolve confirm_already_succeeded)) first_payment)) =
     [JStr ''pi_7_secret_x'', JStr ''pi_7_secret_x'']"
  by code_simp

text \<open>
  Claim C1, as the code has it. The form keeps no record of outcomes and refuses no
  re-entry. With Stripe loaded and an appointment that is neither \<^verbatim>\<open>undefined\<close> nor
  \<^verbatim>\<open>null\<close>, each press of the button, whatever the state the earlier presses left, sends
  one authorization request (the price, \<^verbatim>\<open>eur\<close>, the id of the appointment) and then,
  when the backend answers with a body, one confirm request for the
  \<^verbatim>\<open>client_secret\<close> of that body; when the backend answers with no body or rejects, no
  confirm request. So over any sequence of presses the handles confirmed are, in
  order, the handles the backend issued, and none is confirmed twice when the backend
  never issues the same handle twice.
\<close>

theorem confirm_once_per_issued_handle:
  assumes "\<not> nullish appointment"
  shows "sent (checkout_run origin appointment rs c) =
           sent c @ concat (map (\<lambda>(ir, cr).
             payment_requests origin appointment (email c) (issued_handle ir)) rs) \<and>
         confirmed_handles (sent (checkout_run origin appointment rs c)) =
           confirmed_handles (sent c) @ List.map_filter (\<lambda>(ir, cr). issued_handle ir) rs \<and>
         (sent c = [] \<and> distinct (List.map_filter (\<lambda>(ir, cr). issued_handle ir) rs) \<longrightarrow>
            distinct (confirmed_handles (sent (checkout_run origin appointment rs c))))"
proof -
  have s: "sent (checkout_run origin appointment rs c) =
      sent c @ concat (map (\<lambda>(ir, cr).
        payment_requests origin appointment (email c) (issued_handle ir)) rs)"
    using checkout_run_frame [OF assms, of origin rs c] by simp
  have h: "confirmed_handles (sent (checkout_run origin appointment rs c)) =
      confirmed_handles (sent c) @ List.map_filter (\<lambda>(ir, cr). issued_handle ir) rs"
    by (simp add: s confirmed_handles_append confirmed_handles_concat)
  have d: "sent c = [] \<and> distinct (List.map_filter (\<lambda>(ir, cr). issued_handle ir) rs) \<longrightarrow>
      distinct (confirmed_handles (sent (checkout_run origin appointment rs c)))"
    by (simp add: h)
  from s h d show ?thesis by (intro conjI)
qed

theorem confirm_once_per_issued_handle_witness:
  "\<not> nullish mario_appointment \<and>
   sent (checkout_run shop_origin mario_appointment
       [(Resolve intent_response, Settled (Resolve confirm_succeeded)),
        (Reject conflict_error, Redirected),
        (Resolve intent_response_2, Settled (Reject JNull))] new_checkout) =
     [CreateIntent (JNum 25) (JStr ''eur'') (JNum 7),
      ConfirmPayment (JStr ''pi_7_secret_x'') (confirmParams shop_origin mario_appointment (JStr [])),
      CreateIntent (JNum 25) (JStr ''eur'') (JNum 7),
      CreateIntent (JNum 25) (JStr ''eur'') (JNum 7),
      ConfirmPayment (JStr ''pi_8_secret_y'') (confirmParams shop_origin mario_appointment (JStr []))] \<and>
   confirmed_handles (sent (checkout_run shop_origin mario_appointment
       [(Resolve intent_response, Settled (Resolve confirm_succeeded)),
        (Reject conflict_error, Redirected),
        (Resolve intent_response_2, Settled (Reject JNull))] new_checkout)) =
     [JStr ''pi_7_secret_x'', JStr ''pi_8_secret_y''] \<and>
   distinct (confirmed_handles (sent (checkout_run shop_origin mario_appointment
       [(Resolve intent_response, Settled (Resolve confirm_succeeded)),
        (Reject conflict_error, Redirected),
        (Resolve intent_response_2, Settled (Reject JNull))] new_checkout)))"
proof -
  have h: "\<not> nullish mario_appointment" by code_simp
  have i: "sent new_checkout = []" "email new_checkout = JStr []"
    "List.map_filter (\<lambda>(ir, cr). issued_handle ir)
       [(Resolve intent_response, Settled (Resolve confirm_succeeded)),
        (Reject conflict_error, Redirected),
        (Resolve intent_response_2, Settled (Reject JNull))] = [JStr ''pi_7_secret_x'', JStr ''pi_8_secret_y'']"
    by code_simp+
  have j: "concat (map (\<lambda>(ir, cr). payment_requests shop_origin mario_appointment (JStr []) (issued_handle ir))
       [(Resolve intent_response, Settled (Resolve confirm_succeeded)),
        (Reject conflict_error, Redirected),
        (Resolve intent_response_2, Settled (Reject JNull))]) =
     [CreateIntent (JNum 25) (JStr ''eur'') (JNum 7),
      ConfirmPayment (JStr ''pi_7_secret_x'') (confirmParams shop_origin mario_appointment (JStr [])),
      CreateIntent (JNum 25) (JStr ''eur'') (JNum 7),
      CreateIntent (JNum 25) (JStr ''eur'') (JNum 7),
      ConfirmPayment (JStr ''pi_8_secret_y'') (confirmParams shop_origin mario_appointment (JStr []))]"
    by code_simp
  from confirm_once_per_issued_handle [OF h, of shop_origin
       "[(Resolve intent_response, Settled (Resolve confirm_succeeded)),
        (Reject conflict_error, Redirected),
        (Resolve intent_response_2, Settled (Reject JNull))]" new_checkout] i j h
  show ?thesis by simp
qed

end
